theory Spec2Isabelle
  imports Main "HOL-Library.AList"
begin

section \<open>Go strings\<close>

text \<open>
  A Go string is a sequence of bytes; \<open>string\<close> (a list of 8-bit characters) is used for it.
  The functions of package \<open>strings\<close> that the operator calls are written out below.
\<close>

definition HasPrefix :: "string \<Rightarrow> string \<Rightarrow> bool" where
  "HasPrefix s pre = (length pre \<le> length s \<and> take (length pre) s = pre)"

definition HasSuffix :: "string \<Rightarrow> string \<Rightarrow> bool" where
  "HasSuffix s suf = (length suf \<le> length s \<and> drop (length s - length suf) s = suf)"

definition TrimPrefix :: "string \<Rightarrow> string \<Rightarrow> string" where
  "TrimPrefix s pre = (if HasPrefix s pre then drop (length pre) s else s)"

text \<open>
  \<open>strings.ReplaceAll\<close>: the non-overlapping occurrences of \<open>old\<close> are replaced from left to
  right. With an empty \<open>old\<close> Go inserts \<open>new\<close> before every rune and at the end; the model
  does so before every byte.
\<close>

function ReplaceAll :: "string \<Rightarrow> string \<Rightarrow> string \<Rightarrow> string" where
  "ReplaceAll s old new =
     (if old = [] then new @ concat (map (\<lambda>c. c # new) s)
      else (case s of
        [] \<Rightarrow> []
      | c # cs \<Rightarrow>
          (if HasPrefix s old then new @ ReplaceAll (drop (length old) s) old new
           else c # ReplaceAll cs old new)))"
  by pat_completeness auto
termination
  by (relation "measure (\<lambda>(s, old, new). length s)") auto

declare ReplaceAll.simps [simp del]

text \<open>
  \<open>strings.ToLower\<close>. When every byte of the string is ASCII (below \<open>utf8.RuneSelf\<close>, 128),
  the bytes \<open>A\<close> to \<open>Z\<close> move to \<open>a\<close> to \<open>z\<close> and every other byte stays. Otherwise Go maps
  \<open>unicode.ToLower\<close> over the runes of the string (\<open>strings.Map\<close>); that mapping, which rests
  on the case tables of the Go library, is the argument \<open>unicodeToLower\<close>.
\<close>

definition toLowerByte :: "char \<Rightarrow> char" where
  "toLowerByte c =
     (if (65::nat) \<le> of_char c \<and> of_char c \<le> (90::nat) then char_of (of_char c + (32::nat)) else c)"

definition isASCII :: "string \<Rightarrow> bool" where
  "isASCII s = list_all (\<lambda>c. of_char c < (128::nat)) s"

definition ToLower :: "(string \<Rightarrow> string) \<Rightarrow> string \<Rightarrow> string" where
  "ToLower unicodeToLower s = (if isASCII s then map toLowerByte s else unicodeToLower s)"

section \<open>Go maps\<close>

text \<open>
  A Go \<open>map[string]string\<close>: \<open>None\<close> is the nil map, \<open>Some kvs\<close> a map with the entries
  \<open>kvs\<close>. A \<open>range\<close> loop visits the entries in an order that Go does not fix; the loops
  below visit them in the order of the list, and the properties hold for every list.
\<close>

type_synonym gomap = "(string \<times> string) list option"

definition len :: "gomap \<Rightarrow> nat" where
  "len m = (case m of None \<Rightarrow> 0 | Some kvs \<Rightarrow> length kvs)"

definition entries :: "gomap \<Rightarrow> (string \<times> string) list" where
  "entries m = (case m of None \<Rightarrow> [] | Some kvs \<Rightarrow> kvs)"

definition lookup :: "gomap \<Rightarrow> string \<Rightarrow> string option" where
  "lookup m k = map_of (entries m) k"

section \<open>XML nodes as the aggregator reads them\<close>

text \<open>
  The aggregator reads the ARF report and the data stream through three operations of the
  XML query library: the value of an attribute (the empty string when the node has no such
  attribute), the first child element of a given name, and the text inside a node.
\<close>

datatype node =
  Element string "(string \<times> string) list" "node list"
| TextNode string

fun nodeName :: "node \<Rightarrow> string option" where
  "nodeName (Element n _ _) = Some n"
| "nodeName (TextNode _) = None"

fun hasAttr :: "node \<Rightarrow> string \<Rightarrow> bool" where
  "hasAttr (Element _ attrs _) a = (map_of attrs a \<noteq> None)"
| "hasAttr (TextNode _) a = False"

fun SelectAttr :: "node \<Rightarrow> string \<Rightarrow> string" where
  "SelectAttr (Element _ attrs _) a = (case map_of attrs a of Some v \<Rightarrow> v | None \<Rightarrow> [])"
| "SelectAttr (TextNode _) a = []"

fun SelectElement :: "node \<Rightarrow> string \<Rightarrow> node option" where
  "SelectElement (Element _ _ cs) n = find (\<lambda>c. nodeName c = Some n) cs"
| "SelectElement (TextNode _) n = None"

fun InnerText :: "node \<Rightarrow> string" where
  "InnerText (TextNode s) = s"
| "InnerText (Element _ _ cs) = concat (map InnerText cs)"

section \<open>Parsing ARF results (pkg/utils/parse_arf_result.go)\<close>

datatype ComplianceCheckStatus =
  CheckResultPass
| CheckResultFail
| CheckResultInfo
| CheckResultManual
| CheckResultError
| CheckResultNotApplicable
| CheckResultInconsistent
| CheckResultNoResult

datatype ComplianceCheckResultSeverity =
  CheckResultSeverityUnknown
| CheckResultSeverityInfo
| CheckResultSeverityLow
| CheckResultSeverityMedium
| CheckResultSeverityHigh

datatype arfError =
  NoResultElement
| NoSeverityAttribute
| UnknownState string

record ComplianceCheckResult =
  Name :: string
  Namespace :: string
  Labels :: gomap
  Annotations :: gomap
  ID :: string
  Status :: ComplianceCheckStatus
  Severity :: ComplianceCheckResultSeverity
  Instructions :: string
  Description :: string
  Warnings :: "string list"

definition rulePrefix :: string where
  "rulePrefix = ''xccdf_org.ssgproject.content_rule_''"

definition nameFromId :: "(string \<Rightarrow> string) \<Rightarrow> string \<Rightarrow> string \<Rightarrow> string" where
  "nameFromId unicodeToLower scanName ruleIdRef =
     (let ruleName = TrimPrefix ruleIdRef rulePrefix;
          dnsFriendlyFixId = ReplaceAll ruleName ''_'' ''-'';
          dnsFriendlyFixId = ToLower unicodeToLower dnsFriendlyFixId
      in scanName @ ''-'' @ dnsFriendlyFixId)"

definition mapComplianceCheckResultSeverity :: "node \<Rightarrow> arfError + ComplianceCheckResultSeverity" where
  "mapComplianceCheckResultSeverity result =
     (let severityAttr = SelectAttr result ''severity'' in
      if severityAttr = [] then Inl NoSeverityAttribute
      else if severityAttr = ''unknown'' then Inr CheckResultSeverityUnknown
      else if severityAttr = ''info'' then Inr CheckResultSeverityInfo
      else if severityAttr = ''low'' then Inr CheckResultSeverityLow
      else if severityAttr = ''medium'' then Inr CheckResultSeverityMedium
      else if severityAttr = ''high'' then Inr CheckResultSeverityHigh
      else Inr CheckResultSeverityUnknown)"

definition mapComplianceCheckResultStatus :: "node \<Rightarrow> arfError + ComplianceCheckStatus" where
  "mapComplianceCheckResultStatus result =
     (case SelectElement result ''result'' of
        None \<Rightarrow> Inl NoResultElement
      | Some resultEl \<Rightarrow>
          (let t = InnerText resultEl in
           if t = ''pass'' \<or> t = ''fixed'' then Inr CheckResultPass
           else if t = ''fail'' then Inr CheckResultFail
           else if t = ''error'' \<or> t = ''unknown'' then Inr CheckResultError
           else if t = ''notchecked'' then Inr CheckResultManual
           else if t = ''informational'' then Inr CheckResultInfo
           else if t = ''notapplicable'' then Inr CheckResultNotApplicable
           else if t = ''notselected'' then Inr CheckResultNoResult
           else Inl (UnknownState t)))"

definition getSafeText :: "node \<Rightarrow> string \<Rightarrow> string" where
  "getSafeText nptr elem =
     (case SelectElement nptr elem of None \<Rightarrow> [] | Some elemNode \<Rightarrow> InnerText elemNode)"

definition complianceCheckResultDescription :: "node \<Rightarrow> string" where
  "complianceCheckResultDescription rule =
     (let title = getSafeText rule ''xccdf-1.2:title'';
          title = (if title \<noteq> [] then title @ [CHR 0x0A] else title)
      in title @ getSafeText rule ''xccdf-1.2:rationale'')"

text \<open>
  \<open>newComplianceCheckResult\<close> returns a pointer and an error: \<open>Inl\<close> is the error,
  \<open>Inr None\<close> the nil pointer without an error (no object for this rule-result), and
  \<open>Inr (Some r)\<close> the object. The warnings of the rule are rendered to Markdown by another
  file; the renderer is the argument \<open>getWarningsForRule\<close>. The argument \<open>unicodeToLower\<close> is
  passed on to \<open>nameFromId\<close>.
\<close>

definition newComplianceCheckResult ::
  "(string \<Rightarrow> string) \<Rightarrow> (node \<Rightarrow> string list) \<Rightarrow> node \<Rightarrow> node \<Rightarrow> string \<Rightarrow> string
     \<Rightarrow> string \<Rightarrow> string \<Rightarrow> arfError + ComplianceCheckResult option" where
  "newComplianceCheckResult unicodeToLower getWarningsForRule result rule ruleIdRef instructions
       scanName namespace =
     (let name = nameFromId unicodeToLower scanName ruleIdRef in
      case mapComplianceCheckResultStatus result of
        Inl err \<Rightarrow> Inl err
      | Inr mappedStatus \<Rightarrow>
          (if mappedStatus = CheckResultNoResult then Inr None
           else (case mapComplianceCheckResultSeverity rule of
              Inl err \<Rightarrow> Inl err
            | Inr mappedSeverity \<Rightarrow>
                Inr (Some \<lparr> Name = name, Namespace = namespace,
                            Labels = None, Annotations = None, ID = ruleIdRef,
                            Status = mappedStatus, Severity = mappedSeverity,
                            Instructions = instructions,
                            Description = complianceCheckResultDescription rule,
                            Warnings = getWarningsForRule rule \<rparr>))))"

text \<open>
  The dns-friendly rule name in the words of the specification: the rule prefix stripped,
  every underscore replaced by a dash, all letters lowercased (by \<open>strings.ToLower\<close>, as
  above). It is compared with \<open>nameFromId\<close> below.
\<close>

definition spec_dns :: "(string \<Rightarrow> string) \<Rightarrow> string \<Rightarrow> string" where
  "spec_dns unicodeToLower R =
     ToLower unicodeToLower
       (map (\<lambda>c. if c = CHR ''_'' then CHR ''-'' else c)
          (if HasPrefix R ''xccdf_org.ssgproject.content_rule_''
           then drop (length ''xccdf_org.ssgproject.content_rule_'') R else R))"

text \<open>
  A lowering of the strings that are not ASCII which changes nothing; it is never reached on
  the ASCII names of the examples.
\<close>

definition keepNonASCII :: "string \<Rightarrow> string" where
  "keepNonASCII s = s"

text \<open>A rule-result element of an ARF report and a Rule element of the data stream.\<close>

definition ruleResult :: "string \<Rightarrow> node" where
  "ruleResult t =
     Element ''rule-result'' [(''idref'', ''xccdf_org.ssgproject.content_rule_Foo_Bar'')]
       [Element ''result'' [] [TextNode t]]"

definition ruleDef :: "string \<Rightarrow> node" where
  "ruleDef sev =
     Element ''xccdf-1.2:Rule''
       [(''id'', ''xccdf_org.ssgproject.content_rule_Foo_Bar''), (''severity'', sev)] []"

section \<open>The CEL scanner command (cmd/manager, refactored CEL scanner)\<close>

text \<open>
  The objects the scanner reads from the cluster. Only the fields that the scanner touches
  are kept. \<open>client.Get\<close> looks an object up by name and namespace; the cluster is the list
  of stored objects, and a missing object is the NotFound error.
\<close>

record RuleReferenceSpec =
  ref_Name :: string
  ref_Rationale :: string

record VariableValueSpec =
  vv_Name :: string
  vv_Rationale :: string
  vv_Value :: string

record TailoredProfileSpec =
  Extends :: string
  Title :: string
  tps_Description :: string
  EnableRules :: "RuleReferenceSpec list"
  DisableRules :: "RuleReferenceSpec list"
  ManualRules :: "RuleReferenceSpec list"
  SetValues :: "VariableValueSpec list"

record TailoredProfile =
  tp_Name :: string
  tp_Namespace :: string
  Spec :: TailoredProfileSpec

record CustomRule =
  cr_Name :: string
  cr_Namespace :: string
  cr_ID :: string
  cr_Expression :: string

record Variable =
  var_Name :: string
  var_Namespace :: string
  var_ID :: string
  var_Value :: string

record cluster =
  tailoredProfiles :: "TailoredProfile list"
  customRules :: "CustomRule list"
  variables :: "Variable list"

datatype clientError = NotFound string

definition getObject :: "'a list \<Rightarrow> ('a \<Rightarrow> string) \<Rightarrow> ('a \<Rightarrow> string) \<Rightarrow> string \<Rightarrow> string
    \<Rightarrow> clientError + 'a" where
  "getObject objs name namespace n ns =
     (case find (\<lambda>obj. name obj = n \<and> namespace obj = ns) objs of
        None \<Rightarrow> Inl (NotFound n)
      | Some obj \<Rightarrow> Inr obj)"

datatype celError =
  RuleAppearsTwice string
| FetchingRule clientError
| VariableAppearsTwice string
| FetchingVariable clientError

text \<open>The message of each error, as \<open>fmt.Errorf\<close> builds it.\<close>

fun clientErrorString :: "clientError \<Rightarrow> string" where
  "clientErrorString (NotFound n) = [CHR 0x22] @ n @ [CHR 0x22] @ '' not found''"

fun celErrorString :: "celError \<Rightarrow> string" where
  "celErrorString (RuleAppearsTwice n) = ''Rule '' @ [CHR 0x27] @ n @ [CHR 0x27] @ '' appears twice in selections''"
| "celErrorString (FetchingRule e) = ''Fetching rule: '' @ clientErrorString e"
| "celErrorString (VariableAppearsTwice n) =
     ''Variables '' @ [CHR 0x27] @ n @ [CHR 0x27] @ '' appears twice in selections''"
| "celErrorString (FetchingVariable e) = ''Fetching variable: '' @ clientErrorString e"

text \<open>
  The loop of \<open>getSelectedCustomRules\<close> over the selections, with the rules selected so far.
\<close>

fun selectRules :: "cluster \<Rightarrow> string \<Rightarrow> RuleReferenceSpec list \<Rightarrow> CustomRule list
    \<Rightarrow> celError + CustomRule list" where
  "selectRules c ns [] selectedRules = Inr selectedRules"
| "selectRules c ns (selection # rest) selectedRules =
     (if list_ex (\<lambda>rule. cr_Name rule = ref_Name selection) selectedRules
      then Inl (RuleAppearsTwice (ref_Name selection))
      else (case getObject (customRules c) cr_Name cr_Namespace (ref_Name selection) ns of
              Inl err \<Rightarrow> Inl (FetchingRule err)
            | Inr rule \<Rightarrow> selectRules c ns rest (selectedRules @ [rule])))"

definition getSelectedCustomRules :: "cluster \<Rightarrow> TailoredProfile \<Rightarrow> celError + CustomRule list" where
  "getSelectedCustomRules c tp =
     selectRules c (tp_Namespace tp)
       (EnableRules (Spec tp) @ (DisableRules (Spec tp) @ ManualRules (Spec tp))) []"

fun setVariables :: "cluster \<Rightarrow> string \<Rightarrow> VariableValueSpec list \<Rightarrow> Variable list
    \<Rightarrow> celError + Variable list" where
  "setVariables c ns [] setVars = Inr setVars"
| "setVariables c ns (sVar # rest) setVars =
     (if list_ex (\<lambda>iVar. var_Name iVar = vv_Name sVar) setVars
      then Inl (VariableAppearsTwice (vv_Name sVar))
      else (case getObject (variables c) var_Name var_Namespace (vv_Name sVar) ns of
              Inl err \<Rightarrow> Inl (FetchingVariable err)
            | Inr variable \<Rightarrow>
                setVariables c ns rest (setVars @ [variable\<lparr>var_Value := vv_Value sVar\<rparr>])))"

definition getSetVariables :: "cluster \<Rightarrow> TailoredProfile \<Rightarrow> celError + Variable list" where
  "getSetVariables c tp = setVariables c (tp_Namespace tp) (SetValues (Spec tp)) []"

text \<open>
  A result of the scanner module. Its status is a string in Go, converted to the status of
  a ComplianceCheckResult without change; the same datatype is used.
\<close>

record CheckResult =
  res_ID :: string
  res_Name :: string
  res_Status :: ComplianceCheckStatus
  res_Warnings :: "string list"

text \<open>
  The loop of \<open>runPlatformScan\<close> that determines the exit code: every Fail result sets it to
  2 and every Error result sets it to -1, in the order of the list.
\<close>

definition exitCodeStep :: "int \<Rightarrow> CheckResult \<Rightarrow> int" where
  "exitCodeStep exitCode result =
     (if res_Status result = CheckResultFail then 2
      else if res_Status result = CheckResultError then -1
      else exitCode)"

definition determineExitCode :: "CheckResult list \<Rightarrow> int" where
  "determineExitCode results = foldl exitCodeStep 0 results"

text \<open>\<open>fmt.Sprintf("%d", n)\<close>: the decimal digits, with a minus sign for a negative number.\<close>

definition digit :: "nat \<Rightarrow> char" where
  "digit d = char_of (48 + d)"

function showNat :: "nat \<Rightarrow> string" where
  "showNat n = (if n < 10 then [digit n] else showNat (n div 10) @ [digit (n mod 10)])"
  by pat_completeness auto
termination
  by (relation "measure id") auto

declare showNat.simps [simp del]

definition Sprintf_d :: "int \<Rightarrow> string" where
  "Sprintf_d i = (if i < 0 then ''-'' @ showNat (nat (- i)) else showNat (nat i))"

text \<open>
  The configuration of the command and the parts of \<open>runPlatformScan\<close> that live outside
  this file: the scanner module (\<open>Scan\<close>, \<open>SaveResults\<close>), the creation of the
  ComplianceCheckResult objects and the file system. Each may fail; \<open>True\<close> is success.
\<close>

record celConfig =
  Profile :: string
  Tailoring :: string
  NameSpace :: string
  CheckResultDir :: string
  CCRGeneration :: bool

record scanEnv =
  Scan :: "CustomRule list \<Rightarrow> Variable list \<Rightarrow> string + CheckResult list"
  SaveResults :: "string \<Rightarrow> CheckResult list \<Rightarrow> bool"
  generateComplianceCheckResults :: "CheckResult list \<Rightarrow> bool"
  WriteFile :: "string \<Rightarrow> string \<Rightarrow> bool"

text \<open>
  The outcome of the command: \<open>FATAL\<close> (the process is aborted with a message), or the
  process exits with a status after having written the exit-code file (path and content).
\<close>

datatype outcome =
  FATAL string
| Exit int string string

text \<open>
  \<open>filepath.Clean\<close> on a slash-separated path. Go scans the bytes and writes the result as
  it goes; the model treats the path element by element, which gives the same result: empty
  elements and \<open>.\<close> are dropped, \<open>..\<close> removes the element before it, stays when there is none
  to remove in a path that is not rooted, and is dropped at the root. The empty result is
  \<open>.\<close>.
\<close>

fun splitPath :: "string \<Rightarrow> string list" where
  "splitPath [] = [[]]"
| "splitPath (c # cs) =
     (if c = CHR ''/'' then [] # splitPath cs
      else (case splitPath cs of
              [] \<Rightarrow> [[c]]
            | elem # elems \<Rightarrow> (c # elem) # elems))"

definition cleanElement :: "bool \<Rightarrow> string list \<Rightarrow> string \<Rightarrow> string list" where
  "cleanElement rooted out elem =
     (if elem = [] \<or> elem = ''.'' then out
      else if elem = ''..'' then
        (if out \<noteq> [] \<and> last out \<noteq> ''..'' then butlast out
         else if \<not> rooted then out @ [''..'']
         else out)
      else out @ [elem])"

fun joinElements :: "string list \<Rightarrow> string" where
  "joinElements [] = []"
| "joinElements [elem] = elem"
| "joinElements (elem # elems) = elem @ ''/'' @ joinElements elems"

definition Clean :: "string \<Rightarrow> string" where
  "Clean path =
     (if path = [] then ''.''
      else (let rooted = (take 1 path = ''/'');
                out = (if rooted then ''/'' else [])
                        @ joinElements (foldl (cleanElement rooted) [] (splitPath path))
            in if out = [] then ''.'' else out))"

text \<open>
  \<open>filepath.Join\<close> of a directory and a file name: the elements from the first non-empty one
  on are joined by slashes and the result is cleaned; when both are empty the result is
  empty.
\<close>

definition Join :: "string \<Rightarrow> string \<Rightarrow> string" where
  "Join dir file =
     (if dir \<noteq> [] then Clean (dir @ ''/'' @ file)
      else if file \<noteq> [] then Clean file
      else [])"

definition getTailoredProfile :: "cluster \<Rightarrow> celConfig \<Rightarrow> string \<Rightarrow> clientError + TailoredProfile" where
  "getTailoredProfile c config namespace =
     getObject (tailoredProfiles c) tp_Name tp_Namespace (Profile config) namespace"

definition saveExitCode :: "scanEnv \<Rightarrow> celConfig \<Rightarrow> int \<Rightarrow> outcome" where
  "saveExitCode env config exitCode =
     (let exitCodeFilePath = Join (CheckResultDir config) ''exit_code'' in
      if WriteFile env exitCodeFilePath (Sprintf_d exitCode)
      then Exit 0 exitCodeFilePath (Sprintf_d exitCode)
      else FATAL ''Failed to write exit code to file'')"

definition runPlatformScan :: "scanEnv \<Rightarrow> cluster \<Rightarrow> celConfig \<Rightarrow> outcome" where
  "runPlatformScan env c config =
     (if Profile config = [] then FATAL ''Profile not provided''
      else if Tailoring config \<noteq> [] then
        (case getTailoredProfile c config (NameSpace config) of
           Inl err \<Rightarrow> FATAL (''Failed to get tailored profile: '' @ clientErrorString err)
         | Inr tailoredProfile \<Rightarrow>
        (case getSelectedCustomRules c tailoredProfile of
           Inl err \<Rightarrow> FATAL (''Failed to get selected rules: '' @ celErrorString err)
         | Inr selectedRules \<Rightarrow>
        (case getSetVariables c tailoredProfile of
           Inl err \<Rightarrow> FATAL (''Failed to get set variables: '' @ celErrorString err)
         | Inr setVars \<Rightarrow>
        (case Scan env selectedRules setVars of
           Inl err \<Rightarrow> FATAL (''Failed to execute scan: '' @ err)
         | Inr results \<Rightarrow>
             (let exitCode = determineExitCode results in
              if \<not> SaveResults env (Join (CheckResultDir config) ''result.xml'') results
              then FATAL ''Failed to save scan results''
              else if CCRGeneration config \<and> \<not> generateComplianceCheckResults env results
              then FATAL ''Failed to generate ComplianceCheckResult objects''
              else saveExitCode env config exitCode)))))
      else FATAL ''No tailored profile provided'')"


text \<open>A small cluster, a configuration and a scanner module for running the command.\<close>

definition resultWith :: "ComplianceCheckStatus \<Rightarrow> CheckResult" where
  "resultWith st = \<lparr> res_ID = ''rule'', res_Name = ''rule'', res_Status = st, res_Warnings = [] \<rparr>"

definition ruleRef :: "string \<Rightarrow> RuleReferenceSpec" where
  "ruleRef n = \<lparr> ref_Name = n, ref_Rationale = ''selected'' \<rparr>"

definition customRule :: "string \<Rightarrow> CustomRule" where
  "customRule n = \<lparr> cr_Name = n, cr_Namespace = ''ns'', cr_ID = n, cr_Expression = ''true'' \<rparr>"

definition tailoredProfileWith :: "RuleReferenceSpec list \<Rightarrow> TailoredProfile" where
  "tailoredProfileWith enable =
     \<lparr> tp_Name = ''tp'', tp_Namespace = ''ns'',
       Spec = \<lparr> Extends = [], Title = ''t'', tps_Description = ''d'',
                EnableRules = enable, DisableRules = [], ManualRules = [], SetValues = [] \<rparr> \<rparr>"

definition clusterWith :: "RuleReferenceSpec list \<Rightarrow> cluster" where
  "clusterWith enable =
     \<lparr> tailoredProfiles = [tailoredProfileWith enable],
       customRules = [customRule ''rule-a'', customRule ''rule-b''],
       variables = [] \<rparr>"

definition exampleConfig :: celConfig where
  "exampleConfig =
     \<lparr> Profile = ''tp'', Tailoring = ''tp'', NameSpace = ''ns'',
       CheckResultDir = ''/reports'', CCRGeneration = False \<rparr>"

definition exampleEnv :: "ComplianceCheckStatus \<Rightarrow> scanEnv" where
  "exampleEnv st =
     \<lparr> Scan = (\<lambda>rules vars. Inr (map (\<lambda>r. resultWith st) rules)),
       SaveResults = (\<lambda>path results. True),
       generateComplianceCheckResults = (\<lambda>results. True),
       WriteFile = (\<lambda>path content. True) \<rparr>"

section \<open>Custom metadata of rules (pkg/utils/rule_metadata.go)\<close>

text \<open>
  \<open>operatorManagedPrefixes\<close> are the key prefixes that the operator manages; keys under them
  are not propagated as custom metadata.
\<close>

definition operatorManagedPrefixes :: "string list" where
  "operatorManagedPrefixes =
     [''compliance.openshift.io/'', ''complianceoperator.openshift.io/'', ''complianceascode.io/'']"

definition IsOperatorManagedKey :: "string \<Rightarrow> bool" where
  "IsOperatorManagedKey key = list_ex (\<lambda>prefix. HasPrefix key prefix) operatorManagedPrefixes"

definition filterCustomKeys :: "gomap \<Rightarrow> gomap" where
  "filterCustomKeys m =
     (if len m = 0 then None
      else (let result = fold (\<lambda>(k, v) result. if \<not> IsOperatorManagedKey k then AList.update k v result else result)
                           (entries m) []
            in if length result = 0 then None else Some result))"

definition GetCustomMetadata :: "gomap \<Rightarrow> gomap \<Rightarrow> gomap \<times> gomap" where
  "GetCustomMetadata labels annotations = (filterCustomKeys labels, filterCustomKeys annotations)"

definition mergeIfNotExists :: "gomap \<Rightarrow> gomap \<Rightarrow> gomap" where
  "mergeIfNotExists dst src =
     (if len src = 0 then dst
      else Some (fold (\<lambda>(k, v) dst. if map_of dst k = None then AList.update k v dst else dst)
                   (entries src) (case dst of None \<Rightarrow> [] | Some kvs \<Rightarrow> kvs)))"

definition MergeCustomMetadata :: "gomap \<Rightarrow> gomap \<Rightarrow> gomap \<Rightarrow> gomap \<Rightarrow> gomap \<times> gomap" where
  "MergeCustomMetadata targetLabels customLabels targetAnnotations customAnnotations =
     (mergeIfNotExists targetLabels customLabels, mergeIfNotExists targetAnnotations customAnnotations)"

text \<open>
  How the CEL scanner assembles the labels and the annotations of a check result
  (\<open>getCheckResultLabels\<close>, \<open>getCheckResultAnnotations\<close>): the operator's entries first, then
  every entry that the result already carries, stored under its key. The keys of the
  operator's entries and the texts of a status and of a severity are constants of the API
  package; they are arguments here. Of the scan only the name is read.
\<close>

record apiConstants =
  ComplianceScanLabel :: string
  ComplianceCheckResultStatusLabel :: string
  ComplianceCheckResultSeverityLabel :: string
  ComplianceCheckResultRuleAnnotation :: string
  statusString :: "ComplianceCheckStatus \<Rightarrow> string"
  severityString :: "ComplianceCheckResultSeverity \<Rightarrow> string"

definition getCheckResultLabels :: "apiConstants \<Rightarrow> ComplianceCheckResult \<Rightarrow> string \<Rightarrow> gomap" where
  "getCheckResultLabels api result scanName =
     (let labels = [];
          labels = AList.update (ComplianceScanLabel api) scanName labels;
          labels = AList.update (ComplianceCheckResultStatusLabel api)
                     (statusString api (Status result)) labels;
          labels = AList.update (ComplianceCheckResultSeverityLabel api)
                     (severityString api (Severity result)) labels;
          labels = (case Labels result of
                      None \<Rightarrow> labels
                    | Some kvs \<Rightarrow> fold (\<lambda>(k, v) labels. AList.update k v labels) kvs labels)
      in Some labels)"

definition getCheckResultAnnotations :: "apiConstants \<Rightarrow> ComplianceCheckResult \<Rightarrow> gomap" where
  "getCheckResultAnnotations api result =
     (let annotations = [];
          annotations = AList.update (ComplianceCheckResultRuleAnnotation api) (Name result) annotations;
          annotations = (case Annotations result of
                           None \<Rightarrow> annotations
                         | Some kvs \<Rightarrow> fold (\<lambda>(k, v) annotations. AList.update k v annotations) kvs annotations)
      in Some annotations)"

text \<open>
  Modelled from the spec: the keys of the operator-managed labels and of the rule annotation
  of a check result; the constants themselves are declared in the API package. The texts
  given to the statuses and severities stand for the strings of that package.
\<close>

definition exampleApi :: apiConstants where
  "exampleApi =
     \<lparr> ComplianceScanLabel = ''compliance.openshift.io/scan-name'',
       ComplianceCheckResultStatusLabel = ''compliance.openshift.io/check-status'',
       ComplianceCheckResultSeverityLabel = ''compliance.openshift.io/check-severity'',
       ComplianceCheckResultRuleAnnotation = ''compliance.openshift.io/rule'',
       statusString = (\<lambda>st. case st of
           CheckResultPass \<Rightarrow> ''PASS'' | CheckResultFail \<Rightarrow> ''FAIL'' | CheckResultInfo \<Rightarrow> ''INFO''
         | CheckResultManual \<Rightarrow> ''MANUAL'' | CheckResultError \<Rightarrow> ''ERROR''
         | CheckResultNotApplicable \<Rightarrow> ''NOT-APPLICABLE''
         | CheckResultInconsistent \<Rightarrow> ''INCONSISTENT'' | CheckResultNoResult \<Rightarrow> []),
       severityString = (\<lambda>sev. case sev of
           CheckResultSeverityUnknown \<Rightarrow> ''unknown'' | CheckResultSeverityInfo \<Rightarrow> ''info''
         | CheckResultSeverityLow \<Rightarrow> ''low'' | CheckResultSeverityMedium \<Rightarrow> ''medium''
         | CheckResultSeverityHigh \<Rightarrow> ''high'') \<rparr>"

definition exampleResult :: ComplianceCheckResult where
  "exampleResult =
     \<lparr> Name = ''my-scan-rule-a'', Namespace = ''ns'', Labels = None, Annotations = None,
       ID = ''rule-a'', Status = CheckResultFail, Severity = CheckResultSeverityHigh,
       Instructions = [], Description = [], Warnings = [] \<rparr>"

text \<open>Labels of a check result and of its rule, for running the merge.\<close>

definition operatorLabels :: gomap where
  "operatorLabels =
     Some [(''compliance.openshift.io/scan-name'', ''my-scan''),
           (''compliance.openshift.io/check-status'', ''FAIL'')]"

definition userLabels :: gomap where
  "userLabels =
     Some [(''compliance.openshift.io/scan-name'', ''other''), (''weakness_score'', ''high'')]"

section \<open>Fetching API resources (cmd/manager, API resource collector)\<close>

record ResourcePath =
  ObjPath :: string
  DumpPath :: string
  Filter :: string
  SuppressWarning :: bool

text \<open>
  Errors of the API machinery. A status error carries the reason and the HTTP code of the
  status that the API server gave, and a message; the errors of a kind or of a resource that
  the server does not know are the no-match errors. \<open>reasonAndCodeForError\<close> gives the
  reason and the code of a status error, and the unknown reason (the empty string) with
  code 0 for any other error. \<open>IsNotFound\<close> holds for the reason NotFound and also for a
  reason outside \<open>knownReasons\<close> with the code 404; \<open>IsForbidden\<close> likewise with Forbidden and
  403. \<open>ReasonForError\<close> is the reason alone.
\<close>

datatype streamError =
  StatusError string int string
| NoKindMatchError string
| NoResourceMatchError string
| OtherError string

definition knownReasons :: "string list" where
  "knownReasons =
     [''Unauthorized'', ''Forbidden'', ''NotFound'', ''AlreadyExists'', ''Conflict'', ''Gone'',
      ''Invalid'', ''ServerTimeout'', ''Timeout'', ''TooManyRequests'', ''BadRequest'',
      ''MethodNotAllowed'', ''NotAcceptable'', ''RequestEntityTooLarge'', ''UnsupportedMediaType'',
      ''InternalError'', ''Expired'', ''ServiceUnavailable'']"

fun reasonAndCodeForError :: "streamError \<Rightarrow> string \<times> int" where
  "reasonAndCodeForError (StatusError reason code msg) = (reason, code)"
| "reasonAndCodeForError (NoKindMatchError msg) = ([], 0)"
| "reasonAndCodeForError (NoResourceMatchError msg) = ([], 0)"
| "reasonAndCodeForError (OtherError msg) = ([], 0)"

definition IsNotFound :: "streamError \<Rightarrow> bool" where
  "IsNotFound err =
     (let (reason, code) = reasonAndCodeForError err in
      if reason = ''NotFound'' then True
      else if reason \<notin> set knownReasons \<and> code = 404 then True
      else False)"

definition IsForbidden :: "streamError \<Rightarrow> bool" where
  "IsForbidden err =
     (let (reason, code) = reasonAndCodeForError err in
      if reason = ''Forbidden'' then True
      else if reason \<notin> set knownReasons \<and> code = 403 then True
      else False)"

fun IsNoMatchError :: "streamError \<Rightarrow> bool" where
  "IsNoMatchError (StatusError reason code msg) = False"
| "IsNoMatchError (NoKindMatchError msg) = True"
| "IsNoMatchError (NoResourceMatchError msg) = True"
| "IsNoMatchError (OtherError msg) = False"

definition ReasonForError :: "streamError \<Rightarrow> string" where
  "ReasonForError err = fst (reasonAndCodeForError err)"

fun streamErrorString :: "streamError \<Rightarrow> string" where
  "streamErrorString (StatusError reason code msg) = msg"
| "streamErrorString (NoKindMatchError msg) = msg"
| "streamErrorString (NoResourceMatchError msg) = msg"
| "streamErrorString (OtherError msg) = msg"

text \<open>
  The jq, JSON and YAML libraries. A run of a jq query yields a sequence of items, each a
  value or an error. A value is a string, null, or anything else (given by its JSON text).
  \<open>Parse\<close> and \<open>Unmarshal\<close> return the error, if any; \<open>yamlToJSON\<close> is \<open>None\<close> when the string
  is not a YAML mapping and otherwise the result of marshalling that mapping to JSON;
  \<open>Marshal\<close> is \<open>json.Marshal\<close> of a value.
\<close>

datatype jqValue = JString string | JNull | JOther string

datatype jqItem = JqError string | JqValue jqValue

record jqLib =
  Parse :: "string \<Rightarrow> string option"
  Unmarshal :: "string \<Rightarrow> string option"
  Run :: "string \<Rightarrow> string \<Rightarrow> jqItem list"
  yamlToJSON :: "string \<Rightarrow> (string + string) option"
  Marshal :: "jqValue \<Rightarrow> string + string"

datatype filterError =
  CouldNotCreateFilter string string
| UnmarshallingJSON string
| CouldNotGetFilteredObject
| SkippingEmptyResult string
| GojqError string
| MarshallingJSON string
| SkippingExtraResults string

text \<open>
  \<open>errors.Is\<close> against the two sentinel errors: only the errors that wrap them match.
\<close>

fun isMoreThanOneObjErr :: "filterError \<Rightarrow> bool" where
  "isMoreThanOneObjErr (SkippingExtraResults f) = True"
| "isMoreThanOneObjErr _ = False"

fun isNullValErr :: "filterError \<Rightarrow> bool" where
  "isNullValErr (SkippingEmptyResult f) = True"
| "isNullValErr _ = False"

definition MoreThanOneObjErr :: string where
  "MoreThanOneObjErr = ''more than one object returned from the filter''"

definition NullValErr :: string where
  "NullValErr = ''no value was returned from the filter''"

fun filterErrorString :: "filterError \<Rightarrow> string" where
  "filterErrorString (CouldNotCreateFilter f e) =
     ''could not create filter '' @ [CHR 0x27] @ f @ [CHR 0x27] @ '': '' @ e"
| "filterErrorString (UnmarshallingJSON e) = ''Error unmarshalling json: '' @ e"
| "filterErrorString CouldNotGetFilteredObject = ''couldn't get filtered object''"
| "filterErrorString (SkippingEmptyResult f) =
     ''Skipping empty filter result from '' @ [CHR 0x27] @ f @ [CHR 0x27] @ '': '' @ NullValErr"
| "filterErrorString (GojqError e) = e"
| "filterErrorString (MarshallingJSON e) = ''error marshalling JSON: '' @ e"
| "filterErrorString (SkippingExtraResults f) =
     ''Skipping extra results from filter '' @ [CHR 0x27] @ f @ [CHR 0x27] @ '': '' @ MoreThanOneObjErr"

text \<open>The bytes that \<open>filter\<close> stores for the first value of the run.\<close>

definition encodeValue :: "jqLib \<Rightarrow> jqValue \<Rightarrow> string + string" where
  "encodeValue lib v =
     (case v of
        JString val \<Rightarrow>
          (case yamlToJSON lib val of
             None \<Rightarrow> Inr val
           | Some (Inl e) \<Rightarrow> Inl e
           | Some (Inr out) \<Rightarrow> Inr out)
      | JNull \<Rightarrow> Marshal lib v
      | JOther j \<Rightarrow> Marshal lib v)"

text \<open>
  \<open>filter\<close> returns the bytes and the error; the nil byte slice is the empty string.
\<close>

definition filter_jq :: "jqLib \<Rightarrow> string \<Rightarrow> string \<Rightarrow> string \<times> filterError option" where
  "filter_jq lib rawobj flt =
     (case Parse lib flt of
        Some fltrErr \<Rightarrow> ([], Some (CouldNotCreateFilter flt fltrErr))
      | None \<Rightarrow>
     (case Unmarshal lib rawobj of
        Some unmarshallErr \<Rightarrow> ([], Some (UnmarshallingJSON unmarshallErr))
      | None \<Rightarrow>
     (case Run lib flt rawobj of
        [] \<Rightarrow> ([], Some CouldNotGetFilteredObject)
      | JqError err # others \<Rightarrow>
          (if HasSuffix err '': null'' then ([], Some (SkippingEmptyResult flt))
           else ([], Some (GojqError err)))
      | JqValue v # others \<Rightarrow>
          (case encodeValue lib v of
             Inl e \<Rightarrow> ([], Some (MarshallingJSON e))
           | Inr out \<Rightarrow>
               (if others \<noteq> [] then (out, Some (SkippingExtraResults flt))
                else (out, None))))))"

datatype fetchError =
  StreamingURIsFailed streamError
| ReadAllFailed string
| CouldNotFilter string filterError

text \<open>
  One planned path, as the body of the loop of \<open>fetch\<close> treats it. \<open>Stream\<close> is the method of
  the streamer interface: it gives an error or a stream, and reading the stream to its
  end gives an error or the body. The results are a Go map from the dump location to the
  bytes, kept as a list of entries.
\<close>

type_synonym stream = "string + string"

definition ReadAll :: "stream \<Rightarrow> string + string" where
  "ReadAll s = s"

definition fetchOne ::
  "jqLib \<Rightarrow> ('s \<Rightarrow> 'c \<Rightarrow> streamError + stream) \<Rightarrow> (string \<Rightarrow> 's) \<Rightarrow> 'c \<Rightarrow> ResourcePath
     \<Rightarrow> (string \<times> string) list \<Rightarrow> string list
     \<Rightarrow> fetchError option \<times> (string \<times> string) list \<times> string list" where
  "fetchOne lib Stream streamDispatcher rfClients rpath results warnings =
     (let uri = ObjPath rpath;
          streamer = streamDispatcher uri in
      case Stream streamer rfClients of
        Inl err \<Rightarrow>
          (if IsNoMatchError err \<or> IsForbidden err \<or> IsNotFound err then
             (let objerr = ''could not fetch '' @ uri @ '': '' @ streamErrorString err;
                  warnings = (if \<not> SuppressWarning rpath then warnings @ [objerr] else warnings);
                  results = (if IsNotFound err
                             then AList.update (DumpPath rpath) (''# kube-api-error='' @ ReasonForError err) results
                             else results)
              in (None, results, warnings))
           else (Some (StreamingURIsFailed err), results, warnings))
      | Inr stream \<Rightarrow>
          (case ReadAll stream of
             Inl err \<Rightarrow> (Some (ReadAllFailed err), results, warnings)
           | Inr body \<Rightarrow>
               (if length body = 0 then (None, results, warnings)
                else if Filter rpath \<noteq> [] then
                  (let (filteredBody, filterErr) = filter_jq lib body (Filter rpath) in
                   case filterErr of
                     Some e \<Rightarrow>
                       (if isMoreThanOneObjErr e then
                          (None, AList.update (DumpPath rpath) filteredBody results,
                           warnings @ [filterErrorString e])
                        else if isNullValErr e then
                          (None, AList.update (DumpPath rpath) filteredBody results,
                           warnings @ [''couldn't filter '' @ [CHR 0x27] @ body @ [CHR 0x27] @ '': ''
                                        @ filterErrorString e])
                        else (Some (CouldNotFilter body e), results, warnings))
                   | None \<Rightarrow> (None, AList.update (DumpPath rpath) filteredBody results, warnings))
                else (None, AList.update (DumpPath rpath) body results, warnings))))"

text \<open>
  \<open>fetch\<close> returns the results (nil on an error), the warnings gathered so far and the
  error: a pair of the warnings and either the error or the results.
\<close>

fun fetchLoop ::
  "jqLib \<Rightarrow> ('s \<Rightarrow> 'c \<Rightarrow> streamError + stream) \<Rightarrow> (string \<Rightarrow> 's) \<Rightarrow> 'c \<Rightarrow> ResourcePath list
     \<Rightarrow> (string \<times> string) list \<Rightarrow> string list
     \<Rightarrow> string list \<times> (fetchError + (string \<times> string) list)" where
  "fetchLoop lib Stream streamDispatcher rfClients [] results warnings = (warnings, Inr results)"
| "fetchLoop lib Stream streamDispatcher rfClients (rpath # objects) results warnings =
     (case fetchOne lib Stream streamDispatcher rfClients rpath results warnings of
        (Some err, results', warnings') \<Rightarrow> (warnings', Inl err)
      | (None, results', warnings') \<Rightarrow>
          fetchLoop lib Stream streamDispatcher rfClients objects results' warnings')"

definition fetch ::
  "jqLib \<Rightarrow> ('s \<Rightarrow> 'c \<Rightarrow> streamError + stream) \<Rightarrow> (string \<Rightarrow> 's) \<Rightarrow> 'c \<Rightarrow> ResourcePath list
     \<Rightarrow> string list \<times> (fetchError + (string \<times> string) list)" where
  "fetch lib Stream streamDispatcher rfClients objects =
     fetchLoop lib Stream streamDispatcher rfClients objects [] []"

text \<open>A jq library with a fixed run, a path of the plan and an API server with fixed answers.\<close>

definition exampleLib :: "jqItem list \<Rightarrow> jqLib" where
  "exampleLib items =
     \<lparr> Parse = (\<lambda>flt. None), Unmarshal = (\<lambda>rawobj. None), Run = (\<lambda>flt rawobj. items),
       yamlToJSON = (\<lambda>val. None),
       Marshal = (\<lambda>v. case v of JString val \<Rightarrow> Inr val | JNull \<Rightarrow> Inr ''null'' | JOther j \<Rightarrow> Inr j) \<rparr>"

definition pathOf :: "string \<Rightarrow> string \<Rightarrow> ResourcePath" where
  "pathOf uri flt = \<lparr> ObjPath = uri, DumpPath = uri, Filter = flt, SuppressWarning = False \<rparr>"

definition serverWith :: "(string \<times> (streamError + stream)) list \<Rightarrow> string \<Rightarrow> unit \<Rightarrow> streamError + stream" where
  "serverWith answers uri clients =
     (case map_of answers uri of Some r \<Rightarrow> r | None \<Rightarrow> Inl (StatusError ''NotFound'' 404 (uri @ '' not found'')))"

section \<open>Streaming MachineConfigs\<close>

text \<open>
  A MachineConfig with its embedded ignition payload (the raw bytes of \<open>Spec.Config\<close>), a
  page of a list with its continue token, and an ignition config with its storage.files
  array apart from everything else. The clients of the fetcher, with the libraries that
  \<open>mcStreamer\<close> calls: listing MachineConfigs with a limit and a continue token, a streaming
  GET of a URI, parsing and marshalling an ignition config, and the JSON serializer.
\<close>

record MachineConfig =
  mc_Name :: string
  Raw :: string

record MachineConfigList =
  TypeMeta :: string
  Continue :: string
  Items :: "MachineConfig list"

record IgnConfig =
  StorageFiles :: "string list"
  OtherFields :: string

record resourceFetcherClients =
  client_List :: "int \<Rightarrow> string \<Rightarrow> streamError + MachineConfigList"
  clientset_Get :: "string \<Rightarrow> streamError + stream"
  ParseAndConvertConfig :: "string \<Rightarrow> string + IgnConfig"
  MarshalIgn :: "IgnConfig \<Rightarrow> string + string"
  Encode :: "MachineConfigList \<Rightarrow> string + string"

datatype resourceStreamer = McStreamer | UriStreamer string

definition getStreamerFn :: "string \<Rightarrow> resourceStreamer" where
  "getStreamerFn uri =
     (if uri = ''/apis/machineconfiguration.openshift.io/v1/machineconfigs'' then McStreamer
      else UriStreamer uri)"

fun filterItems :: "resourceFetcherClients \<Rightarrow> MachineConfig list \<Rightarrow> MachineConfig list
    \<Rightarrow> string + MachineConfig list" where
  "filterItems rfClients [] items = Inr items"
| "filterItems rfClients (mc # rest) items =
     (if length (Raw mc) > 0 then
        (case ParseAndConvertConfig rfClients (Raw mc) of
           Inl err \<Rightarrow> Inl (''cannot parse MC '' @ mc_Name mc @ '': '' @ err)
         | Inr ign \<Rightarrow>
             (case MarshalIgn rfClients (ign\<lparr>StorageFiles := []\<rparr>) of
                Inl err \<Rightarrow> Inl (''failed to marshal Ignition object back to a a raw object: '' @ err)
              | Inr rawOutIgn \<Rightarrow> filterItems rfClients rest (items @ [mc\<lparr>Raw := rawOutIgn\<rparr>])))
      else filterItems rfClients rest (items @ [mc]))"

definition filterMcList :: "resourceFetcherClients \<Rightarrow> MachineConfigList \<Rightarrow> string + MachineConfigList" where
  "filterMcList rfClients mcListIn =
     (case filterItems rfClients (Items mcListIn) [] of
        Inl err \<Rightarrow> Inl err
      | Inr items \<Rightarrow> Inr \<lparr> TypeMeta = TypeMeta mcListIn, Continue = Continue mcListIn, Items = items \<rparr>)"

fun wrapError :: "string \<Rightarrow> streamError \<Rightarrow> streamError" where
  "wrapError pre (StatusError reason code msg) = StatusError reason code (pre @ msg)"
| "wrapError pre (NoKindMatchError msg) = NoKindMatchError (pre @ msg)"
| "wrapError pre (NoResourceMatchError msg) = NoResourceMatchError (pre @ msg)"
| "wrapError pre (OtherError msg) = OtherError (pre @ msg)"

text \<open>
  The loop of \<open>mcStreamer.Stream\<close>. It ends when the server returns an empty continue token;
  a server that never does so keeps it running, which is the value \<open>None\<close>.
\<close>

partial_function (option) mcStreamLoop ::
  "resourceFetcherClients \<Rightarrow> string \<Rightarrow> MachineConfig list \<Rightarrow> (streamError + MachineConfig list) option" where
  "mcStreamLoop rfClients continueToken items =
     (case client_List rfClients 5 continueToken of
        Inl err \<Rightarrow> Some (Inl (wrapError ''failed to list MachineConfigs: '' err))
      | Inr mcfgList \<Rightarrow>
          (case filterMcList rfClients mcfgList of
             Inl err \<Rightarrow> Some (Inl (OtherError (''failed to filter machine configs: '' @ err)))
           | Inr mcfgListNoFilesBatch \<Rightarrow>
               (if Continue mcfgList = [] then Some (Inr (items @ Items mcfgListNoFilesBatch))
                else mcStreamLoop rfClients (Continue mcfgList) (items @ Items mcfgListNoFilesBatch))))"

definition mcStreamer_Stream :: "resourceFetcherClients \<Rightarrow> (streamError + stream) option" where
  "mcStreamer_Stream rfClients =
     (case mcStreamLoop rfClients [] [] of
        None \<Rightarrow> None
      | Some (Inl err) \<Rightarrow> Some (Inl err)
      | Some (Inr items) \<Rightarrow>
          (case Encode rfClients \<lparr> TypeMeta = [], Continue = [], Items = items \<rparr> of
             Inl err \<Rightarrow> Some (Inl (OtherError (''failed to serialize MC list: '' @ err)))
           | Inr buf \<Rightarrow> Some (Inr (Inr buf))))"

fun streamerStream :: "resourceStreamer \<Rightarrow> resourceFetcherClients \<Rightarrow> (streamError + stream) option" where
  "streamerStream McStreamer rfClients = mcStreamer_Stream rfClients"
| "streamerStream (UriStreamer uri) rfClients = Some (clientset_Get rfClients uri)"

text \<open>
  The server answers the list calls that start at a token, with limit 5, by these pages:
  each page but the last carries the continue token of the next call, the last carries none.
\<close>

fun pagesFrom :: "resourceFetcherClients \<Rightarrow> string \<Rightarrow> MachineConfigList list \<Rightarrow> bool" where
  "pagesFrom rfClients token [] = False"
| "pagesFrom rfClients token (p # ps) =
     (client_List rfClients 5 token = Inr p
      \<and> (if ps = [] then Continue p = [] else Continue p \<noteq> [] \<and> pagesFrom rfClients (Continue p) ps))"

text \<open>
  In the words of the specification: \<open>mc'\<close> is \<open>mc\<close> with the files of its ignition payload
  removed. A MachineConfig without an ignition payload is unchanged; otherwise the payload of
  \<open>mc'\<close> is the marshalled ignition config of \<open>mc\<close> with an empty storage.files array.
\<close>

definition withoutFiles :: "resourceFetcherClients \<Rightarrow> MachineConfig \<Rightarrow> MachineConfig \<Rightarrow> bool" where
  "withoutFiles rfClients mc mc' =
     (if Raw mc = [] then mc' = mc
      else (case ParseAndConvertConfig rfClients (Raw mc) of
              Inl err \<Rightarrow> False
            | Inr ign \<Rightarrow>
                mc_Name mc' = mc_Name mc
                \<and> MarshalIgn rfClients \<lparr> StorageFiles = [], OtherFields = OtherFields ign \<rparr> = Inr (Raw mc')))"

text \<open>A server that answers with two pages of MachineConfigs.\<close>

definition machineConfig :: "string \<Rightarrow> string \<Rightarrow> MachineConfig" where
  "machineConfig n raw = \<lparr> mc_Name = n, Raw = raw \<rparr>"

definition page1 :: MachineConfigList where
  "page1 = \<lparr> TypeMeta = ''MachineConfigList'', Continue = ''next'',
             Items = [machineConfig ''a'' ''ign-a'', machineConfig ''b'' []] \<rparr>"

definition page2 :: MachineConfigList where
  "page2 = \<lparr> TypeMeta = ''MachineConfigList'', Continue = [],
             Items = [machineConfig ''c'' ''ign-c''] \<rparr>"

definition exampleClients :: resourceFetcherClients where
  "exampleClients =
     \<lparr> client_List = (\<lambda>limit token.
         if limit = 5 \<and> token = [] then Inr page1
         else if limit = 5 \<and> token = ''next'' then Inr page2
         else Inl (OtherError ''unexpected list options'')),
       clientset_Get = (\<lambda>uri. Inr (Inr uri)),
       ParseAndConvertConfig = (\<lambda>raw. Inr \<lparr> StorageFiles = [''a large file''], OtherFields = raw \<rparr>),
       MarshalIgn = (\<lambda>ign. Inr (OtherFields ign @ (if StorageFiles ign = [] then [] else ''+files''))),
       Encode = (\<lambda>l. Inr (concat (map (\<lambda>mc. mc_Name mc @ ''='' @ Raw mc @ '';'') (Items l)))) \<rparr>"

section \<open>The tailoring document (pkg/xccdf, tailoring)\<close>

definition XCCDFNamespace :: string where
  "XCCDFNamespace = ''compliance.openshift.io''"

definition XCCDFURI :: string where
  "XCCDFURI = ''http://checklists.nist.gov/xccdf/1.2''"

record Rule =
  rule_Name :: string
  rule_ID :: string

record Profile =
  profile_Name :: string
  profile_ID :: string

record ProfileBundle =
  ContentFile :: string

text \<open>The elements of the document, as the structs that are marshalled to XML.\<close>

record SelectElement_struct =
  sel_IDRef :: string
  Selected :: bool

record SetValueElement =
  sv_IDRef :: string
  sv_Value :: string

record TitleOrDescriptionElement =
  Override :: bool
  td_Value :: string

record ProfileElement =
  pe_ID :: string
  pe_Extends :: string
  pe_Title :: "TitleOrDescriptionElement option"
  pe_Description :: "TitleOrDescriptionElement option"
  Selections :: "SelectElement_struct list"
  Values :: "SetValueElement list"

record BenchmarkElement =
  Href :: string

record VersionElement =
  Time :: string
  ver_Value :: string

record TailoringElement =
  XMLNamespaceURI :: string
  te_ID :: string
  Benchmark :: BenchmarkElement
  Version :: VersionElement
  te_Profile :: ProfileElement

definition GetXCCDFProfileID :: "TailoredProfile \<Rightarrow> string" where
  "GetXCCDFProfileID tp = ''xccdf_'' @ XCCDFNamespace @ ''_profile_'' @ tp_Name tp"

definition getTailoringID :: "TailoredProfile \<Rightarrow> string" where
  "getTailoringID tp = ''xccdf_'' @ XCCDFNamespace @ ''_tailoring_'' @ tp_Name tp"

text \<open>
  The rules are a Go map from the rule name to a pointer. A name that is not in the map
  gives the nil pointer, and reading the ID of the rule through it is a panic.
\<close>

datatype xccdfError = NilRule string | MarshalError string

definition getSelectElementFromCRRule :: "Rule \<Rightarrow> bool \<Rightarrow> SelectElement_struct" where
  "getSelectElementFromCRRule rule enable = \<lparr> sel_IDRef = rule_ID rule, Selected = enable \<rparr>"

fun appendSelections :: "(string \<rightharpoonup> Rule) \<Rightarrow> bool \<Rightarrow> RuleReferenceSpec list \<Rightarrow> SelectElement_struct list
    \<Rightarrow> xccdfError + SelectElement_struct list" where
  "appendSelections rules enable [] selections = Inr selections"
| "appendSelections rules enable (selection # rest) selections =
     (case rules (ref_Name selection) of
        None \<Rightarrow> Inl (NilRule (ref_Name selection))
      | Some rule \<Rightarrow>
          appendSelections rules enable rest (selections @ [getSelectElementFromCRRule rule enable]))"

definition getSelections :: "TailoredProfile \<Rightarrow> (string \<rightharpoonup> Rule) \<Rightarrow> xccdfError + SelectElement_struct list" where
  "getSelections tp rules =
     (case appendSelections rules True (EnableRules (Spec tp)) [] of
        Inl err \<Rightarrow> Inl err
      | Inr selections \<Rightarrow>
     (case appendSelections rules False (DisableRules (Spec tp)) selections of
        Inl err \<Rightarrow> Inl err
      | Inr selections \<Rightarrow> appendSelections rules True (ManualRules (Spec tp)) selections))"

definition getValuesFromVariables :: "Variable list \<Rightarrow> SetValueElement list" where
  "getValuesFromVariables vars =
     foldl (\<lambda>values varObj. values @ [\<lparr> sv_IDRef = var_ID varObj, sv_Value = var_Value varObj \<rparr>]) [] vars"

text \<open>
  What \<open>encoding/xml\<close> makes of the structs, by their field tags: the attributes first, then
  the child elements in the order of the fields; an \<open>omitempty\<close> attribute is left out when it
  is empty, a nil pointer gives no element, and character data gives a text node.
\<close>

definition boolText :: "bool \<Rightarrow> string" where
  "boolText b = (if b then ''true'' else ''false'')"

definition chardata :: "string \<Rightarrow> node list" where
  "chardata s = (if s = [] then [] else [TextNode s])"

definition marshalSelect :: "SelectElement_struct \<Rightarrow> node" where
  "marshalSelect s =
     Element ''xccdf-1.2:select'' [(''idref'', sel_IDRef s), (''selected'', boolText (Selected s))] []"

definition marshalSetValue :: "SetValueElement \<Rightarrow> node" where
  "marshalSetValue v = Element ''xccdf-1.2:set-value'' [(''idref'', sv_IDRef v)] (chardata (sv_Value v))"

definition marshalTitleOrDescription :: "string \<Rightarrow> TitleOrDescriptionElement option \<Rightarrow> node list" where
  "marshalTitleOrDescription name e =
     (case e of
        None \<Rightarrow> []
      | Some t \<Rightarrow> [Element name [(''override'', boolText (Override t))] (chardata (td_Value t))])"

definition marshalProfile :: "ProfileElement \<Rightarrow> node" where
  "marshalProfile p =
     Element ''xccdf-1.2:Profile''
       ([(''id'', pe_ID p)] @ (if pe_Extends p = [] then [] else [(''extends'', pe_Extends p)]))
       (marshalTitleOrDescription ''xccdf-1.2:title'' (pe_Title p)
        @ marshalTitleOrDescription ''xccdf-1.2:description'' (pe_Description p)
        @ map marshalSelect (Selections p)
        @ map marshalSetValue (Values p))"

definition marshalTailoring :: "TailoringElement \<Rightarrow> node" where
  "marshalTailoring t =
     Element ''xccdf-1.2:Tailoring''
       [(''xmlns:xccdf-1.2'', XMLNamespaceURI t), (''id'', te_ID t)]
       [Element ''xccdf-1.2:benchmark'' [(''href'', Href (Benchmark t))] [],
        Element ''xccdf-1.2:version'' [(''time'', Time (Version t))] (chardata (ver_Value (Version t))),
        marshalProfile (te_Profile t)]"

text \<open>
  \<open>TailoredProfileToXML\<close>. The time of the call and the function that writes the tree of
  elements as indented text are arguments; the result is the header, a newline and that
  text.
\<close>

definition XMLHeader :: string where
  "XMLHeader = ''<?xml version='' @ [CHR 0x22] @ ''1.0'' @ [CHR 0x22] @ '' encoding='' @ [CHR 0x22]
      @ ''UTF-8'' @ [CHR 0x22] @ ''?>''"

text \<open>The struct that \<open>TailoredProfileToXML\<close> builds before it is marshalled.\<close>

definition tailoringElement ::
  "string \<Rightarrow> TailoredProfile \<Rightarrow> Profile option \<Rightarrow> ProfileBundle \<Rightarrow> (string \<rightharpoonup> Rule) \<Rightarrow> Variable list
     \<Rightarrow> xccdfError + TailoringElement" where
  "tailoringElement now tp p pb rules vars =
     (case getSelections tp rules of
        Inl err \<Rightarrow> Inl err
      | Inr selections \<Rightarrow>
          (let tailoring =
             \<lparr> XMLNamespaceURI = XCCDFURI,
               te_ID = getTailoringID tp,
               Benchmark = \<lparr> Href = Join ''/content'' (ContentFile pb) \<rparr>,
               Version = \<lparr> Time = now, ver_Value = ''1'' \<rparr>,
               te_Profile =
                 \<lparr> pe_ID = GetXCCDFProfileID tp, pe_Extends = [], pe_Title = None, pe_Description = None,
                   Selections = selections, Values = getValuesFromVariables vars \<rparr> \<rparr>;
               tailoring = (case p of
                  None \<Rightarrow> tailoring
                | Some base \<Rightarrow> tailoring\<lparr>te_Profile := (te_Profile tailoring)\<lparr>pe_Extends := profile_ID base\<rparr>\<rparr>);
               tailoring = (if Title (Spec tp) \<noteq> []
                  then tailoring\<lparr>te_Profile := (te_Profile tailoring)
                         \<lparr>pe_Title := Some \<lparr> Override = True, td_Value = Title (Spec tp) \<rparr>\<rparr>\<rparr>
                  else tailoring);
               tailoring = (if tps_Description (Spec tp) \<noteq> []
                  then tailoring\<lparr>te_Profile := (te_Profile tailoring)
                         \<lparr>pe_Description := Some \<lparr> Override = True, td_Value = tps_Description (Spec tp) \<rparr>\<rparr>\<rparr>
                  else tailoring)
           in Inr tailoring))"

definition TailoredProfileToXML ::
  "(node \<Rightarrow> string + string) \<Rightarrow> string \<Rightarrow> TailoredProfile \<Rightarrow> Profile option \<Rightarrow> ProfileBundle
     \<Rightarrow> (string \<rightharpoonup> Rule) \<Rightarrow> Variable list \<Rightarrow> xccdfError + string" where
  "TailoredProfileToXML MarshalIndent now tp p pb rules vars =
     (case tailoringElement now tp p pb rules vars of
        Inl err \<Rightarrow> Inl err
      | Inr tailoring \<Rightarrow>
          (case MarshalIndent (marshalTailoring tailoring) of
             Inl err \<Rightarrow> Inl (MarshalError err)
           | Inr output \<Rightarrow> Inr (XMLHeader @ [CHR 0x0A] @ output)))"

text \<open>The children of an element.\<close>

fun children :: "node \<Rightarrow> node list" where
  "children (Element n attrs cs) = cs"
| "children (TextNode s) = []"

text \<open>The XCCDF id of the rule that a selection names, as the rule map gives it.\<close>

definition selectedRuleID :: "(string \<rightharpoonup> Rule) \<Rightarrow> RuleReferenceSpec \<Rightarrow> string" where
  "selectedRuleID rules selection =
     (case rules (ref_Name selection) of None \<Rightarrow> [] | Some rule \<Rightarrow> rule_ID rule)"

text \<open>A TailoredProfile, its rules and its bundle for building a document.\<close>

definition exampleTailoredProfile :: TailoredProfile where
  "exampleTailoredProfile =
     \<lparr> tp_Name = ''my-tp'', tp_Namespace = ''ns'',
       Spec = \<lparr> Extends = ''base'', Title = ''My profile'', tps_Description = [],
                EnableRules = [ruleRef ''rule-a''], DisableRules = [ruleRef ''rule-b''],
                ManualRules = [], SetValues = [] \<rparr> \<rparr>"

definition exampleRules :: "string \<rightharpoonup> Rule" where
  "exampleRules =
     [''rule-a'' \<mapsto> \<lparr> rule_Name = ''rule-a'', rule_ID = ''xccdf_org.ssgproject.content_rule_a'' \<rparr>,
      ''rule-b'' \<mapsto> \<lparr> rule_Name = ''rule-b'', rule_ID = ''xccdf_org.ssgproject.content_rule_b'' \<rparr>]"

definition exampleBundle :: ProfileBundle where
  "exampleBundle = \<lparr> ContentFile = ''ssg-ocp4-ds.xml'' \<rparr>"

section \<open>Verified properties\<close>

subsection \<open>Strings\<close>

lemma ReplaceAll_single:
  "ReplaceAll s [a] [b] = map (\<lambda>c. if c = a then b else c) s"
proof (induction s)
  case Nil
  show ?case by (simp add: ReplaceAll.simps)
next
  case (Cons c cs)
  show ?case
    using Cons.IH by (subst ReplaceAll.simps) (simp add: HasPrefix_def)
qed

subsection \<open>Status, severity and name of a check result\<close>

lemma newComplianceCheckResult_Some:
  assumes "newComplianceCheckResult lower w res rule R instr S ns = Inr (Some ccr)"
  shows "Name ccr = nameFromId lower S R \<and> mapComplianceCheckResultStatus res = Inr (Status ccr)
         \<and> Status ccr \<noteq> CheckResultNoResult
         \<and> mapComplianceCheckResultSeverity rule = Inr (Severity ccr)"
  using assms
  by (auto simp: newComplianceCheckResult_def Let_def split: sum.splits if_splits)

text \<open>
  C1. For a rule-result element whose \<open>result\<close> child holds the text t, the status mapping
  gives Pass for pass and fixed, Fail for fail, Error for error and unknown, Manual for
  notchecked, Info for informational and NotApplicable for notapplicable. For notselected
  \<open>newComplianceCheckResult\<close> returns no object and no error; and whenever it does return
  an object, that object carries the mapped status and the result was not notselected.
\<close>

theorem status_mapping:
  assumes "SelectElement result ''result'' = Some resultEl"
  shows "(InnerText resultEl = ''pass'' \<longrightarrow> mapComplianceCheckResultStatus result = Inr CheckResultPass)
       \<and> (InnerText resultEl = ''fixed'' \<longrightarrow> mapComplianceCheckResultStatus result = Inr CheckResultPass)
       \<and> (InnerText resultEl = ''fail'' \<longrightarrow> mapComplianceCheckResultStatus result = Inr CheckResultFail)
       \<and> (InnerText resultEl = ''error'' \<longrightarrow> mapComplianceCheckResultStatus result = Inr CheckResultError)
       \<and> (InnerText resultEl = ''unknown'' \<longrightarrow> mapComplianceCheckResultStatus result = Inr CheckResultError)
       \<and> (InnerText resultEl = ''notchecked'' \<longrightarrow> mapComplianceCheckResultStatus result = Inr CheckResultManual)
       \<and> (InnerText resultEl = ''informational'' \<longrightarrow> mapComplianceCheckResultStatus result = Inr CheckResultInfo)
       \<and> (InnerText resultEl = ''notapplicable'' \<longrightarrow>
            mapComplianceCheckResultStatus result = Inr CheckResultNotApplicable)
       \<and> (InnerText resultEl = ''notselected'' \<longrightarrow>
            newComplianceCheckResult lower w result rule ruleIdRef instructions scanName namespace = Inr None)
       \<and> (\<forall>ccr. newComplianceCheckResult lower w result rule ruleIdRef instructions scanName namespace
                 = Inr (Some ccr)
            \<longrightarrow> mapComplianceCheckResultStatus result = Inr (Status ccr)
                \<and> InnerText resultEl \<noteq> ''notselected'')"
proof -
  have m: "InnerText resultEl = t \<Longrightarrow> mapComplianceCheckResultStatus result =
      (if t = ''pass'' \<or> t = ''fixed'' then Inr CheckResultPass
           else if t = ''fail'' then Inr CheckResultFail
           else if t = ''error'' \<or> t = ''unknown'' then Inr CheckResultError
           else if t = ''notchecked'' then Inr CheckResultManual
           else if t = ''informational'' then Inr CheckResultInfo
           else if t = ''notapplicable'' then Inr CheckResultNotApplicable
           else if t = ''notselected'' then Inr CheckResultNoResult
           else Inl (UnknownState t))" for t
    using assms by (simp add: mapComplianceCheckResultStatus_def Let_def)
  have ns: "InnerText resultEl = ''notselected'' \<Longrightarrow>
     newComplianceCheckResult lower w result rule ruleIdRef instructions scanName namespace = Inr None"
    using m[of "''notselected''"] by (simp add: newComplianceCheckResult_def Let_def)
  have pr: "mapComplianceCheckResultStatus result = Inr (Status ccr)
            \<and> InnerText resultEl \<noteq> ''notselected''"
    if "newComplianceCheckResult lower w result rule ruleIdRef instructions scanName namespace
          = Inr (Some ccr)" for ccr
    using that ns newComplianceCheckResult_Some[OF that] by auto
  show ?thesis
    using ns pr by (simp add: m)
qed

theorem status_mapping_witness:
  "SelectElement (ruleResult ''fixed'') ''result'' = Some (Element ''result'' [] [TextNode ''fixed''])
   \<and> InnerText (Element ''result'' [] [TextNode ''fixed'']) = ''fixed''
   \<and> mapComplianceCheckResultStatus (ruleResult ''fixed'') = Inr CheckResultPass"
proof -
  have h: "SelectElement (ruleResult ''fixed'') ''result''
             = Some (Element ''result'' [] [TextNode ''fixed''])"
    by (simp add: ruleResult_def)
  have t: "InnerText (Element ''result'' [] [TextNode ''fixed'']) = ''fixed''" by simp
  from status_mapping[OF h] t h show ?thesis by blast
qed

lemma isASCII_dns:
  assumes "isASCII R"
  shows "isASCII (map (\<lambda>c. if c = CHR ''_'' then CHR ''-'' else c)
                   (if HasPrefix R pre then drop (length pre) R else R))"
proof -
  have d: "\<forall>c \<in> set R. of_char c < (128::nat)"
    using assms by (simp add: isASCII_def list_all_iff)
  have "\<forall>c \<in> set (if HasPrefix R pre then drop (length pre) R else R). of_char c < (128::nat)"
    using d by (auto dest: in_set_dropD)
  then show ?thesis
    by (auto simp: isASCII_def list_all_iff)
qed

text \<open>
  C2. The name computed for scan S and rule identifier R is S, a dash, and the dns-friendly
  form of R as the specification words it: the rule prefix stripped, every underscore
  replaced by a dash, and the letters lowercased as \<open>strings.ToLower\<close> does. For an ASCII
  identifier that is the lowering of the letters A to Z, whatever the case tables of the
  library are. Every check result that the aggregator builds for (S, R) carries that name,
  whatever the rule-result, the rule, the instructions and the namespace are.
\<close>

theorem nameFromId_spec:
  "nameFromId lower S R = S @ ''-'' @ spec_dns lower R
   \<and> (isASCII R \<longrightarrow>
        nameFromId lower S R
          = S @ ''-'' @ map toLowerByte
              (map (\<lambda>c. if c = CHR ''_'' then CHR ''-'' else c)
                 (if HasPrefix R ''xccdf_org.ssgproject.content_rule_''
                  then drop (length ''xccdf_org.ssgproject.content_rule_'') R else R)))
   \<and> (\<forall>ccr. newComplianceCheckResult lower w res rule R instr S ns = Inr (Some ccr)
         \<longrightarrow> Name ccr = S @ ''-'' @ spec_dns lower R)"
proof -
  have n: "nameFromId lower S R = S @ ''-'' @ spec_dns lower R"
    by (simp add: nameFromId_def spec_dns_def TrimPrefix_def rulePrefix_def
        ReplaceAll_single Let_def)
  have a: "isASCII R \<longrightarrow>
        nameFromId lower S R
          = S @ ''-'' @ map toLowerByte
              (map (\<lambda>c. if c = CHR ''_'' then CHR ''-'' else c)
                 (if HasPrefix R ''xccdf_org.ssgproject.content_rule_''
                  then drop (length ''xccdf_org.ssgproject.content_rule_'') R else R))"
    using isASCII_dns[of R "''xccdf_org.ssgproject.content_rule_''"]
    unfolding n spec_dns_def ToLower_def by auto
  have c: "\<forall>ccr. newComplianceCheckResult lower w res rule R instr S ns = Inr (Some ccr)
         \<longrightarrow> Name ccr = S @ ''-'' @ spec_dns lower R"
    using n newComplianceCheckResult_Some[of lower w res rule R instr S ns] by simp
  from n a c show ?thesis by blast
qed

theorem nameFromId_spec_witness:
  "isASCII ''xccdf_org.ssgproject.content_rule_Foo_Bar''
   \<and> newComplianceCheckResult keepNonASCII (\<lambda>r. []) (ruleResult ''fail'') (ruleDef ''high'')
      ''xccdf_org.ssgproject.content_rule_Foo_Bar'' [] ''my-scan'' ''ns''
    = Inr (Some \<lparr> Name = ''my-scan-foo-bar'', Namespace = ''ns'', Labels = None, Annotations = None,
          ID = ''xccdf_org.ssgproject.content_rule_Foo_Bar'',
          Status = CheckResultFail, Severity = CheckResultSeverityHigh,
          Instructions = [], Description = [], Warnings = [] \<rparr>)
   \<and> nameFromId keepNonASCII ''my-scan'' ''xccdf_org.ssgproject.content_rule_Foo_Bar''
       = ''my-scan-foo-bar''
   \<and> ''my-scan'' @ ''-'' @ spec_dns keepNonASCII ''xccdf_org.ssgproject.content_rule_Foo_Bar''
       = ''my-scan-foo-bar''"
proof -
  have i: "isASCII ''xccdf_org.ssgproject.content_rule_Foo_Bar''"
    by code_simp
  have e: "newComplianceCheckResult keepNonASCII (\<lambda>r. []) (ruleResult ''fail'') (ruleDef ''high'')
      ''xccdf_org.ssgproject.content_rule_Foo_Bar'' [] ''my-scan'' ''ns''
    = Inr (Some \<lparr> Name = ''my-scan-foo-bar'', Namespace = ''ns'', Labels = None, Annotations = None,
          ID = ''xccdf_org.ssgproject.content_rule_Foo_Bar'',
          Status = CheckResultFail, Severity = CheckResultSeverityHigh,
          Instructions = [], Description = [], Warnings = [] \<rparr>)"
    by code_simp
  from nameFromId_spec[where lower=keepNonASCII and S="''my-scan''"
      and R="''xccdf_org.ssgproject.content_rule_Foo_Bar''"
      and w="\<lambda>r. []" and res="ruleResult ''fail''" and rule="ruleDef ''high''" and instr="[]"
      and ns="''ns''"] i e
  show ?thesis by simp
qed

text \<open>
  C9, as stated, fails: a Rule element that has a severity attribute with the empty value
  makes the severity mapping return the error.
\<close>

theorem severity_counterexample:
  "hasAttr (ruleDef []) ''severity''
   \<and> mapComplianceCheckResultSeverity (ruleDef []) = Inl NoSeverityAttribute"
  by (simp add: ruleDef_def mapComplianceCheckResultSeverity_def)

text \<open>
  C9, amended. The severity mapping returns an error if and only if the severity attribute
  of the rule node is absent or empty. For every non-empty value other than unknown, info,
  low, medium and high it returns the severity unknown, and with a non-empty value the
  severity never makes \<open>newComplianceCheckResult\<close> fail: a rule-result whose status maps
  without error gives no error.
\<close>

theorem severity_mapping_amended:
  "((\<exists>e. mapComplianceCheckResultSeverity rule = Inl e)
      \<longleftrightarrow> (\<not> hasAttr rule ''severity'' \<or> SelectAttr rule ''severity'' = []))
   \<and> (SelectAttr rule ''severity'' \<noteq> []
        \<and> SelectAttr rule ''severity'' \<notin> {''unknown'', ''info'', ''low'', ''medium'', ''high''}
      \<longrightarrow> mapComplianceCheckResultSeverity rule = Inr CheckResultSeverityUnknown)
   \<and> (SelectAttr rule ''severity'' \<noteq> [] \<and> mapComplianceCheckResultStatus result = Inr st
      \<longrightarrow> (\<exists>r. newComplianceCheckResult lower w result rule ruleIdRef instructions scanName namespace
                 = Inr r))"
proof -
  have a: "\<not> hasAttr rule ''severity'' \<Longrightarrow> SelectAttr rule ''severity'' = []"
    by (cases rule) (auto split: option.splits)
  have e: "(\<exists>e. mapComplianceCheckResultSeverity rule = Inl e)
             \<longleftrightarrow> SelectAttr rule ''severity'' = []"
    by (simp add: mapComplianceCheckResultSeverity_def Let_def)
  have u: "SelectAttr rule ''severity'' \<noteq> []
        \<and> SelectAttr rule ''severity'' \<notin> {''unknown'', ''info'', ''low'', ''medium'', ''high''}
      \<longrightarrow> mapComplianceCheckResultSeverity rule = Inr CheckResultSeverityUnknown"
    by (simp add: mapComplianceCheckResultSeverity_def Let_def)
  have n: "SelectAttr rule ''severity'' \<noteq> [] \<and> mapComplianceCheckResultStatus result = Inr st
      \<longrightarrow> (\<exists>r. newComplianceCheckResult lower w result rule ruleIdRef instructions scanName namespace
                 = Inr r)"
    using e by (cases "mapComplianceCheckResultSeverity rule")
      (auto simp: newComplianceCheckResult_def Let_def)
  from a e u n show ?thesis by blast
qed

theorem severity_mapping_amended_witness:
  "SelectAttr (ruleDef ''critical'') ''severity'' = ''critical''
   \<and> mapComplianceCheckResultStatus (ruleResult ''fail'') = Inr CheckResultFail
   \<and> mapComplianceCheckResultSeverity (ruleDef ''critical'') = Inr CheckResultSeverityUnknown
   \<and> (\<exists>r. newComplianceCheckResult keepNonASCII (\<lambda>r. []) (ruleResult ''fail'') (ruleDef ''critical'')
             ''xccdf_org.ssgproject.content_rule_Foo_Bar'' [] ''my-scan'' ''ns'' = Inr r)"
proof -
  have s: "SelectAttr (ruleDef ''critical'') ''severity'' = ''critical''"
    by (simp add: ruleDef_def)
  have m: "mapComplianceCheckResultStatus (ruleResult ''fail'') = Inr CheckResultFail"
    by (simp add: ruleResult_def mapComplianceCheckResultStatus_def)
  from severity_mapping_amended[where rule="ruleDef ''critical''" and result="ruleResult ''fail''"
      and st=CheckResultFail and lower=keepNonASCII and w="\<lambda>r. []"
      and ruleIdRef="''xccdf_org.ssgproject.content_rule_Foo_Bar''" and instructions="[]"
      and scanName="''my-scan''" and namespace="''ns''"] s m
  show ?thesis by simp
qed

subsection \<open>The exit code of a platform CEL scan\<close>

lemma determineExitCode_snoc:
  "determineExitCode (rs @ [r]) = exitCodeStep (determineExitCode rs) r"
  by (simp add: determineExitCode_def)

lemma determineExitCode_range: "determineExitCode rs \<in> {0, 2, -1}"
  by (induction rs rule: rev_induct) (auto simp: determineExitCode_snoc exitCodeStep_def determineExitCode_def)

lemma determineExitCode_zero:
  "(determineExitCode rs = 0) = (\<forall>r \<in> set rs. res_Status r \<noteq> CheckResultFail \<and> res_Status r \<noteq> CheckResultError)"
proof (induction rs rule: rev_induct)
  case Nil
  show ?case by (simp add: determineExitCode_def)
next
  case (snoc r rs)
  then show ?case by (auto simp: determineExitCode_snoc exitCodeStep_def)
qed

lemma determineExitCode_no_Error:
  "\<forall>r \<in> set rs. res_Status r \<noteq> CheckResultError \<Longrightarrow> determineExitCode rs \<noteq> -1"
  by (induction rs rule: rev_induct) (auto simp: determineExitCode_snoc exitCodeStep_def determineExitCode_def)

lemma determineExitCode_no_Fail:
  "\<forall>r \<in> set rs. res_Status r \<noteq> CheckResultFail \<Longrightarrow> determineExitCode rs \<noteq> 2"
  by (induction rs rule: rev_induct) (auto simp: determineExitCode_snoc exitCodeStep_def determineExitCode_def)

lemma Sprintf_d_0: "Sprintf_d 0 = ''0''"
  by code_simp

lemma Sprintf_d_2: "Sprintf_d 2 = ''2''"
  by code_simp

lemma Sprintf_d_m1: "Sprintf_d (-1) = ''-1''"
  by code_simp

lemma runPlatformScan_Exit:
  assumes "runPlatformScan env c config = Exit st path content"
  shows "\<exists>rules vars results. Scan env rules vars = Inr results
           \<and> st = 0 \<and> path = Join (CheckResultDir config) ''exit_code''
           \<and> content = Sprintf_d (determineExitCode results)"
  using assms
  by (auto simp: runPlatformScan_def saveExitCode_def Let_def split: if_splits sum.splits)

text \<open>
  C4, amended. The exit code is 0 when every result is Pass; it is 2 when at least one
  result is Fail and none is Error; it is -1 when at least one result is Error and none is
  Fail. Whenever the command ends without FATAL, the file exit_code in the result directory
  holds the decimal form of the exit code of the results that the scanner returned.
\<close>

theorem exit_code_amended:
  "((\<forall>r \<in> set results. res_Status r = CheckResultPass) \<longrightarrow> determineExitCode results = 0)
   \<and> ((\<exists>r \<in> set results. res_Status r = CheckResultFail)
        \<and> (\<forall>r \<in> set results. res_Status r \<noteq> CheckResultError) \<longrightarrow> determineExitCode results = 2)
   \<and> ((\<exists>r \<in> set results. res_Status r = CheckResultError)
        \<and> (\<forall>r \<in> set results. res_Status r \<noteq> CheckResultFail) \<longrightarrow> determineExitCode results = -1)
   \<and> (runPlatformScan env c config = Exit st path content \<longrightarrow>
        (\<exists>rules vars rs. Scan env rules vars = Inr rs
           \<and> path = Join (CheckResultDir config) ''exit_code''
           \<and> content = Sprintf_d (determineExitCode rs)))
   \<and> Sprintf_d 0 = ''0'' \<and> Sprintf_d 2 = ''2'' \<and> Sprintf_d (-1) = ''-1''"
proof -
  have z: "(\<forall>r \<in> set results. res_Status r = CheckResultPass) \<longrightarrow> determineExitCode results = 0"
    by (auto simp: determineExitCode_zero)
  have f: "(\<exists>r \<in> set results. res_Status r = CheckResultFail)
        \<and> (\<forall>r \<in> set results. res_Status r \<noteq> CheckResultError) \<longrightarrow> determineExitCode results = 2"
    using determineExitCode_range[of results] determineExitCode_no_Error[of results]
      determineExitCode_zero[of results] by auto
  have e: "(\<exists>r \<in> set results. res_Status r = CheckResultError)
        \<and> (\<forall>r \<in> set results. res_Status r \<noteq> CheckResultFail) \<longrightarrow> determineExitCode results = -1"
    using determineExitCode_range[of results] determineExitCode_no_Fail[of results]
      determineExitCode_zero[of results] by auto
  have r: "runPlatformScan env c config = Exit st path content \<longrightarrow>
        (\<exists>rules vars rs. Scan env rules vars = Inr rs
           \<and> path = Join (CheckResultDir config) ''exit_code''
           \<and> content = Sprintf_d (determineExitCode rs))"
    using runPlatformScan_Exit[of env c config st path content] by blast
  from z f e r Sprintf_d_0 Sprintf_d_2 Sprintf_d_m1 show ?thesis by blast
qed

text \<open>
  C4, as stated, fails on a list that holds a Fail and an Error result: the later of the two
  decides, so the exit code depends on their order.
\<close>

theorem exit_code_counterexample:
  "determineExitCode [resultWith CheckResultFail, resultWith CheckResultError] = -1
   \<and> determineExitCode [resultWith CheckResultError, resultWith CheckResultFail] = 2"
  by (simp add: determineExitCode_def exitCodeStep_def resultWith_def)

theorem exit_code_amended_witness:
  "res_Status (resultWith CheckResultFail) = CheckResultFail
   \<and> res_Status (resultWith CheckResultPass) \<noteq> CheckResultError
   \<and> determineExitCode [resultWith CheckResultPass, resultWith CheckResultFail] = 2
   \<and> runPlatformScan (exampleEnv CheckResultFail) (clusterWith [ruleRef ''rule-a'', ruleRef ''rule-b''])
        exampleConfig = Exit 0 ''/reports/exit_code'' ''2''"
proof -
  have s: "res_Status (resultWith CheckResultFail) = CheckResultFail"
    "res_Status (resultWith CheckResultPass) = CheckResultPass"
    by (simp_all add: resultWith_def)
  have r: "runPlatformScan (exampleEnv CheckResultFail) (clusterWith [ruleRef ''rule-a'', ruleRef ''rule-b''])
        exampleConfig = Exit 0 ''/reports/exit_code'' ''2''"
    by code_simp
  from exit_code_amended[of "[resultWith CheckResultPass, resultWith CheckResultFail]"
      "exampleEnv CheckResultFail" "clusterWith [ruleRef ''rule-a'', ruleRef ''rule-b'']" exampleConfig
      0 "''/reports/exit_code''" "''2''"] s r
  show ?thesis by simp
qed

subsection \<open>Duplicate selections\<close>

lemma getObject_Inr:
  "getObject objs name nsf n ns = Inr obj \<Longrightarrow> name obj = n \<and> nsf obj = ns"
  by (auto simp: getObject_def find_Some_iff split: option.splits)


lemma list_ex_names: "list_ex (\<lambda>x. f x = n) xs = (n \<in> set (map f xs))"
  by (auto simp: list_ex_iff)

lemma selectRules_Inr:
  "selectRules c ns sels acc = Inr rules \<Longrightarrow>
     map cr_Name rules = map cr_Name acc @ map ref_Name sels
     \<and> (distinct (map cr_Name acc) \<longrightarrow> distinct (map cr_Name rules))"
proof (induction sels arbitrary: acc)
  case Nil
  then show ?case by simp
next
  case (Cons sel rest)
  from Cons.prems have nex: "ref_Name sel \<notin> set (map cr_Name acc)"
    by (auto simp: list_ex_names split: if_splits)
  from Cons.prems nex obtain rule where
    g: "getObject (customRules c) cr_Name cr_Namespace (ref_Name sel) ns = Inr rule"
    and r: "selectRules c ns rest (acc @ [rule]) = Inr rules"
    by (auto simp: list_ex_names split: if_splits sum.splits)
  from getObject_Inr[OF g] have n: "cr_Name rule = ref_Name sel" by simp
  have d: "distinct (map cr_Name acc) \<Longrightarrow> distinct (map cr_Name (acc @ [rule]))"
    using nex n by simp
  have m: "map cr_Name (acc @ [rule]) @ map ref_Name rest = map cr_Name acc @ map ref_Name (sel # rest)"
    using n by simp
  from Cons.IH[OF r] d show ?case unfolding m by blast
qed






subsection \<open>Operator keys take precedence\<close>

lemma merge_fold_keeps:
  "map_of d k = Some v \<Longrightarrow>
   map_of (fold (\<lambda>(k, v) dst. if map_of dst k = None then AList.update k v dst else dst) src d) k = Some v"
proof (induction src arbitrary: d)
  case Nil
  then show ?case by simp
next
  case (Cons kv src)
  obtain k' v' where kv: "kv = (k', v')" by (cases kv)
  have "map_of (if map_of d k' = None then AList.update k' v' d else d) k = Some v"
    using Cons.prems by (auto simp: update_conv')
  from Cons.IH[OF this] show ?case by (simp add: kv)
qed

lemma mergeIfNotExists_keeps:
  "lookup dst k = Some v \<Longrightarrow> lookup (mergeIfNotExists dst src) k = Some v"
  by (cases dst) (auto simp: lookup_def entries_def mergeIfNotExists_def merge_fold_keeps)

lemma filter_fold_keys:
  "map_of (fold (\<lambda>(k, v) result. if \<not> IsOperatorManagedKey k then AList.update k v result else result) m r) k = Some v
   \<Longrightarrow> map_of r k = Some v \<or> \<not> IsOperatorManagedKey k"
proof (induction m arbitrary: r)
  case Nil
  then show ?case by simp
next
  case (Cons kv m)
  obtain k' v' where kv: "kv = (k', v')" by (cases kv)
  from Cons.prems have "map_of (fold (\<lambda>(k, v) result. if \<not> IsOperatorManagedKey k then AList.update k v result else result) m
        (if \<not> IsOperatorManagedKey k' then AList.update k' v' r else r)) k = Some v"
    by (simp add: kv)
  from Cons.IH[OF this] show ?case
    by (auto simp: update_conv' split: if_splits)
qed

lemma filterCustomKeys_drops:
  "IsOperatorManagedKey k \<Longrightarrow> lookup (filterCustomKeys m) k = None"
proof (rule ccontr)
  assume op: "IsOperatorManagedKey k" and "lookup (filterCustomKeys m) k \<noteq> None"
  then obtain v where "lookup (filterCustomKeys m) k = Some v" by auto
  then have "map_of (fold (\<lambda>(k, v) result. if \<not> IsOperatorManagedKey k then AList.update k v result else result)
                           (entries m) []) k = Some v"
    by (auto simp: filterCustomKeys_def lookup_def entries_def Let_def split: if_splits)
  from filter_fold_keys[OF this] op show False by simp
qed

lemma IsOperatorManagedKey_prefixes:
  "IsOperatorManagedKey k \<longleftrightarrow>
     HasPrefix k ''compliance.openshift.io/'' \<or> HasPrefix k ''complianceoperator.openshift.io/''
     \<or> HasPrefix k ''complianceascode.io/''"
  by (simp add: IsOperatorManagedKey_def operatorManagedPrefixes_def)

lemma filter_fold_domain:
  "k \<in> fst ` set (fold (\<lambda>(k, v) result. if \<not> IsOperatorManagedKey k then AList.update k v result else result) m r)
   \<Longrightarrow> k \<in> fst ` set r \<or> \<not> IsOperatorManagedKey k"
proof (induction m arbitrary: r)
  case Nil
  then show ?case by simp
next
  case (Cons kv m)
  obtain k' v' where kv: "kv = (k', v')" by (cases kv)
  from Cons.prems have "k \<in> fst ` set (fold (\<lambda>(k, v) result. if \<not> IsOperatorManagedKey k then AList.update k v result else result) m
        (if \<not> IsOperatorManagedKey k' then AList.update k' v' r else r))"
    by (simp add: kv)
  from Cons.IH[OF this] show ?case
    by (auto simp: dom_update split: if_splits)
qed

lemma filterCustomKeys_domain:
  "k \<in> fst ` set (entries (filterCustomKeys m)) \<Longrightarrow> \<not> IsOperatorManagedKey k"
  using filter_fold_domain[of k "entries m" "[]"]
  by (auto simp: filterCustomKeys_def entries_def Let_def split: if_splits)

lemma copy_fold_other_key:
  "k \<notin> fst ` set kvs \<Longrightarrow>
   map_of (fold (\<lambda>(k, v) m. AList.update k v m) kvs m) k = map_of m k"
proof (induction kvs arbitrary: m)
  case Nil
  then show ?case by simp
next
  case (Cons kv kvs)
  obtain k' v' where kv: "kv = (k', v')" by (cases kv)
  from Cons.prems have n: "k \<noteq> k'" and r: "k \<notin> fst ` set kvs" by (auto simp: kv)
  from Cons.IH[OF r, of "AList.update k' v' m"] n show ?case
    by (simp add: kv update_conv')
qed

lemma getCheckResultLabels_operator_key:
  assumes "IsOperatorManagedKey k"
  shows "lookup (getCheckResultLabels api (result\<lparr>Labels := filterCustomKeys ruleLabels\<rparr>) scanName) k
       = lookup (getCheckResultLabels api (result\<lparr>Labels := None\<rparr>) scanName) k"
proof (cases "filterCustomKeys ruleLabels")
  case None
  then show ?thesis by simp
next
  case (Some kvs)
  then have "k \<notin> fst ` set kvs"
    using filterCustomKeys_domain[of k ruleLabels] assms by (auto simp: entries_def)
  then show ?thesis
    using Some by (simp add: getCheckResultLabels_def lookup_def entries_def copy_fold_other_key Let_def)
qed

lemma getCheckResultAnnotations_operator_key:
  assumes "IsOperatorManagedKey k"
  shows "lookup (getCheckResultAnnotations api (result\<lparr>Annotations := filterCustomKeys ruleAnnotations\<rparr>)) k
       = lookup (getCheckResultAnnotations api (result\<lparr>Annotations := None\<rparr>)) k"
proof (cases "filterCustomKeys ruleAnnotations")
  case None
  then show ?thesis by simp
next
  case (Some kvs)
  then have "k \<notin> fst ` set kvs"
    using filterCustomKeys_domain[of k ruleAnnotations] assms by (auto simp: entries_def)
  then show ?thesis
    using Some by (simp add: getCheckResultAnnotations_def lookup_def entries_def copy_fold_other_key Let_def)
qed

text \<open>
  C3. Whatever the target maps (the labels and annotations that hold the operator-managed
  entries) and the custom maps are, \<open>MergeCustomMetadata\<close> leaves every key of a target map
  with the value it had. \<open>GetCustomMetadata\<close> drops every key of the rule's labels and
  annotations that starts with one of the three operator prefixes. Hence a key with an
  operator prefix that carries v' in the target and u on the rule carries v' after the
  merge. The same holds where the CEL scanner assembles the maps: with the custom metadata
  of the rule on the result, every operator-managed key of the labels and of the
  annotations has the value it has without any custom metadata.
\<close>

theorem operator_keys_take_precedence:
  "(lookup targetLabels k = Some v \<longrightarrow>
      lookup (fst (MergeCustomMetadata targetLabels customLabels targetAnnotations customAnnotations)) k = Some v)
   \<and> (lookup targetAnnotations k = Some v \<longrightarrow>
      lookup (snd (MergeCustomMetadata targetLabels customLabels targetAnnotations customAnnotations)) k = Some v)
   \<and> (HasPrefix k ''compliance.openshift.io/'' \<or> HasPrefix k ''complianceoperator.openshift.io/''
       \<or> HasPrefix k ''complianceascode.io/''
      \<longrightarrow> lookup (fst (GetCustomMetadata ruleLabels ruleAnnotations)) k = None
        \<and> lookup (snd (GetCustomMetadata ruleLabels ruleAnnotations)) k = None)
   \<and> (IsOperatorManagedKey k \<and> lookup targetLabels k = Some v' \<and> lookup ruleLabels k = Some u
      \<longrightarrow> lookup (fst (MergeCustomMetadata targetLabels (fst (GetCustomMetadata ruleLabels ruleAnnotations))
                         targetAnnotations (snd (GetCustomMetadata ruleLabels ruleAnnotations)))) k = Some v')
   \<and> (IsOperatorManagedKey k \<and> lookup targetAnnotations k = Some v' \<and> lookup ruleAnnotations k = Some u
      \<longrightarrow> lookup (snd (MergeCustomMetadata targetLabels (fst (GetCustomMetadata ruleLabels ruleAnnotations))
                         targetAnnotations (snd (GetCustomMetadata ruleLabels ruleAnnotations)))) k = Some v')
   \<and> (IsOperatorManagedKey k
      \<longrightarrow> lookup (getCheckResultLabels api
                    (result\<lparr>Labels := fst (GetCustomMetadata ruleLabels ruleAnnotations)\<rparr>) scanName) k
          = lookup (getCheckResultLabels api (result\<lparr>Labels := None\<rparr>) scanName) k
        \<and> lookup (getCheckResultAnnotations api
                    (result\<lparr>Annotations := snd (GetCustomMetadata ruleLabels ruleAnnotations)\<rparr>)) k
          = lookup (getCheckResultAnnotations api (result\<lparr>Annotations := None\<rparr>)) k)"
  by (simp add: MergeCustomMetadata_def GetCustomMetadata_def mergeIfNotExists_keeps
      filterCustomKeys_drops IsOperatorManagedKey_prefixes[symmetric]
      getCheckResultLabels_operator_key getCheckResultAnnotations_operator_key)

theorem operator_keys_take_precedence_witness:
  "lookup operatorLabels ''compliance.openshift.io/scan-name'' = Some ''my-scan''
   \<and> lookup userLabels ''compliance.openshift.io/scan-name'' = Some ''other''
   \<and> IsOperatorManagedKey ''compliance.openshift.io/scan-name''
   \<and> lookup (fst (MergeCustomMetadata operatorLabels (fst (GetCustomMetadata userLabels None))
                      None (snd (GetCustomMetadata userLabels None))))
         ''compliance.openshift.io/scan-name'' = Some ''my-scan''
   \<and> lookup (fst (GetCustomMetadata userLabels None)) ''compliance.openshift.io/scan-name'' = None
   \<and> lookup (getCheckResultLabels exampleApi
                (exampleResult\<lparr>Labels := fst (GetCustomMetadata userLabels None)\<rparr>) ''my-scan'')
         ''compliance.openshift.io/scan-name'' = Some ''my-scan''"
proof -
  have t: "lookup operatorLabels ''compliance.openshift.io/scan-name'' = Some ''my-scan''"
    by (simp add: lookup_def entries_def operatorLabels_def)
  have u: "lookup userLabels ''compliance.openshift.io/scan-name'' = Some ''other''"
    by (simp add: lookup_def entries_def userLabels_def)
  have p: "HasPrefix ''compliance.openshift.io/scan-name'' ''compliance.openshift.io/''"
    by (simp add: HasPrefix_def)
  have i: "IsOperatorManagedKey ''compliance.openshift.io/scan-name''"
    using p by (simp add: IsOperatorManagedKey_prefixes)
  have g: "lookup (getCheckResultLabels exampleApi (exampleResult\<lparr>Labels := None\<rparr>) ''my-scan'')
             ''compliance.openshift.io/scan-name'' = Some ''my-scan''"
    by (simp add: getCheckResultLabels_def exampleApi_def lookup_def entries_def)
  from operator_keys_take_precedence[where targetLabels=operatorLabels
      and k="''compliance.openshift.io/scan-name''" and v="''my-scan''" and v'="''my-scan''"
      and u="''other''" and customLabels=None and targetAnnotations=None and customAnnotations=None
      and ruleLabels=userLabels and ruleAnnotations=None and api=exampleApi and result=exampleResult
      and scanName="''my-scan''"] t u p i g
  show ?thesis by simp
qed

subsection \<open>Fetching the planned resources\<close>






lemma fetchOne_filter:
  assumes "Stream (streamDispatcher (ObjPath rpath)) rfClients = Inr stream"
    and "ReadAll stream = Inr body" and "body \<noteq> []" and "Filter rpath \<noteq> []"
  shows "fetchOne lib Stream streamDispatcher rfClients rpath results warnings =
     (case snd (filter_jq lib body (Filter rpath)) of
        Some e \<Rightarrow>
          (if isMoreThanOneObjErr e then
             (None, AList.update (DumpPath rpath) (fst (filter_jq lib body (Filter rpath))) results,
              warnings @ [filterErrorString e])
           else if isNullValErr e then
             (None, AList.update (DumpPath rpath) (fst (filter_jq lib body (Filter rpath))) results,
              warnings @ [''couldn't filter '' @ [CHR 0x27] @ body @ [CHR 0x27] @ '': '' @ filterErrorString e])
           else (Some (CouldNotFilter body e), results, warnings))
      | None \<Rightarrow> (None, AList.update (DumpPath rpath) (fst (filter_jq lib body (Filter rpath))) results, warnings))"
  using assms
  by (cases "filter_jq lib body (Filter rpath)") (simp add: fetchOne_def Let_def split: option.splits)

lemma filter_jq_more:
  assumes "Parse lib flt = None" "Unmarshal lib body = None"
    "Run lib flt body = JqValue v # x # xs" "encodeValue lib v = Inr out"
  shows "filter_jq lib body flt = (out, Some (SkippingExtraResults flt))"
  using assms by (simp add: filter_jq_def)

lemma filter_jq_null:
  assumes "Parse lib flt = None" "Unmarshal lib body = None"
    "Run lib flt body = JqError e # xs" "HasSuffix e '': null''"
  shows "filter_jq lib body flt = ([], Some (SkippingEmptyResult flt))"
  using assms by (simp add: filter_jq_def)

text \<open>
  C6, amended. For a path with a filter and a non-empty body: when the run of the filter
  yields a first value that can be encoded and at least one more item, the encoded first
  value is stored, the more-than-one-object warning is appended and the loop goes on; when
  the first item of the run is a jq error whose message ends in ": null" (a step of the
  filter acted on null), the null-value warning is appended, the empty payload is stored and
  the loop goes on; every other error of the filter ends the fetch with an error.
\<close>

theorem filter_warnings_amended:
  assumes "Stream (streamDispatcher (ObjPath rpath)) rfClients = Inr stream"
    and "ReadAll stream = Inr body" and "body \<noteq> []" and "Filter rpath \<noteq> []"
  shows "(Parse lib (Filter rpath) = None \<and> Unmarshal lib body = None
          \<and> Run lib (Filter rpath) body = JqValue v # x # xs \<and> encodeValue lib v = Inr out
        \<longrightarrow> fetchLoop lib Stream streamDispatcher rfClients (rpath # objects) results warnings =
            fetchLoop lib Stream streamDispatcher rfClients objects
              (AList.update (DumpPath rpath) out results)
              (warnings @ [''Skipping extra results from filter '' @ [CHR 0x27] @ Filter rpath @ [CHR 0x27]
                            @ '': more than one object returned from the filter'']))
     \<and> (Parse lib (Filter rpath) = None \<and> Unmarshal lib body = None
          \<and> Run lib (Filter rpath) body = JqError msg # ys \<and> HasSuffix msg '': null''
        \<longrightarrow> fetchLoop lib Stream streamDispatcher rfClients (rpath # objects) results warnings =
            fetchLoop lib Stream streamDispatcher rfClients objects
              (AList.update (DumpPath rpath) [] results)
              (warnings @ [''couldn't filter '' @ [CHR 0x27] @ body @ [CHR 0x27]
                            @ '': Skipping empty filter result from '' @ [CHR 0x27] @ Filter rpath @ [CHR 0x27]
                            @ '': no value was returned from the filter'']))
     \<and> (snd (filter_jq lib body (Filter rpath)) = Some e
          \<and> \<not> isMoreThanOneObjErr e \<and> \<not> isNullValErr e
        \<longrightarrow> fetchLoop lib Stream streamDispatcher rfClients (rpath # objects) results warnings =
            (warnings, Inl (CouldNotFilter body e)))"
proof -
  note f = fetchOne_filter[where Stream=Stream and streamDispatcher=streamDispatcher and rpath=rpath and rfClients=rfClients and lib=lib and results=results and warnings=warnings, OF assms]
  have a: "Parse lib (Filter rpath) = None \<and> Unmarshal lib body = None
          \<and> Run lib (Filter rpath) body = JqValue v # x # xs \<and> encodeValue lib v = Inr out
        \<longrightarrow> fetchLoop lib Stream streamDispatcher rfClients (rpath # objects) results warnings =
            fetchLoop lib Stream streamDispatcher rfClients objects
              (AList.update (DumpPath rpath) out results)
              (warnings @ [''Skipping extra results from filter '' @ [CHR 0x27] @ Filter rpath @ [CHR 0x27]
                            @ '': more than one object returned from the filter''])"
    using f filter_jq_more[of lib "Filter rpath" body v x xs out]
    by (auto simp: MoreThanOneObjErr_def)
  have b: "Parse lib (Filter rpath) = None \<and> Unmarshal lib body = None
          \<and> Run lib (Filter rpath) body = JqError msg # ys \<and> HasSuffix msg '': null''
        \<longrightarrow> fetchLoop lib Stream streamDispatcher rfClients (rpath # objects) results warnings =
            fetchLoop lib Stream streamDispatcher rfClients objects
              (AList.update (DumpPath rpath) [] results)
              (warnings @ [''couldn't filter '' @ [CHR 0x27] @ body @ [CHR 0x27]
                            @ '': Skipping empty filter result from '' @ [CHR 0x27] @ Filter rpath @ [CHR 0x27]
                            @ '': no value was returned from the filter''])"
    using f filter_jq_null[of lib "Filter rpath" body msg ys]
    by (auto simp: NullValErr_def)
  have c: "snd (filter_jq lib body (Filter rpath)) = Some e
          \<and> \<not> isMoreThanOneObjErr e \<and> \<not> isNullValErr e
        \<longrightarrow> fetchLoop lib Stream streamDispatcher rfClients (rpath # objects) results warnings =
            (warnings, Inl (CouldNotFilter body e))"
    using f by auto
  from a b c show ?thesis by blast
qed

text \<open>
  C6, as stated, fails: a filter whose result is the value null gives no warning, and the
  stored payload is the JSON text of null, not the empty payload.
\<close>

theorem filter_null_counterexample:
  "fetch (exampleLib [JqValue JNull]) (serverWith [(''/api/v1/x'', Inr (Inr ''{}''))]) (\<lambda>uri. uri) ()
      [pathOf ''/api/v1/x'' ''.missing'']
   = ([], Inr [(''/api/v1/x'', ''null'')])"
  by (simp add: fetch_def fetchOne_def serverWith_def pathOf_def ReadAll_def filter_jq_def exampleLib_def
      encodeValue_def)


theorem filter_warnings_amended_witness:
  "fetch (exampleLib [JqValue (JOther ''1''), JqValue (JOther ''2'')])
      (serverWith [(''/api/v1/x'', Inr (Inr ''{}''))]) (\<lambda>uri. uri) () [pathOf ''/api/v1/x'' ''.items[]'']
     = ([''Skipping extra results from filter '' @ [CHR 0x27] @ ''.items[]'' @ [CHR 0x27]
           @ '': more than one object returned from the filter''],
        Inr [(''/api/v1/x'', ''1'')])
   \<and> fetch (exampleLib [JqError ''cannot iterate over: null''])
      (serverWith [(''/api/v1/x'', Inr (Inr ''{}''))]) (\<lambda>uri. uri) () [pathOf ''/api/v1/x'' ''.items[]'']
     = ([''couldn't filter '' @ [CHR 0x27] @ ''{}'' @ [CHR 0x27]
           @ '': Skipping empty filter result from '' @ [CHR 0x27] @ ''.items[]'' @ [CHR 0x27]
           @ '': no value was returned from the filter''],
        Inr [(''/api/v1/x'', [])])
   \<and> fetch (exampleLib [])
      (serverWith [(''/api/v1/x'', Inr (Inr ''{}''))]) (\<lambda>uri. uri) () [pathOf ''/api/v1/x'' ''.items[]'']
     = ([], Inl (CouldNotFilter ''{}'' CouldNotGetFilteredObject))"
proof -
  let ?srv = "serverWith [(''/api/v1/x'', Inr (Inr ''{}''))]"
  let ?rp = "pathOf ''/api/v1/x'' ''.items[]''"
  have s: "?srv ((\<lambda>uri. uri) (ObjPath ?rp)) () = Inr (Inr ''{}'')"
    by (simp add: serverWith_def pathOf_def)
  have r: "ReadAll (Inr ''{}'') = Inr ''{}''"
    by (simp add: ReadAll_def)
  have n: "''{}'' \<noteq> []" "Filter ?rp \<noteq> []"
    by (simp_all add: pathOf_def)
  have a: "fetch (exampleLib [JqValue (JOther ''1''), JqValue (JOther ''2'')]) ?srv (\<lambda>uri. uri) () [?rp]
     = ([''Skipping extra results from filter '' @ [CHR 0x27] @ ''.items[]'' @ [CHR 0x27]
           @ '': more than one object returned from the filter''],
        Inr [(''/api/v1/x'', ''1'')])"
    using filter_warnings_amended[where Stream="?srv" and streamDispatcher="\<lambda>uri. uri" and rpath="?rp"
        and rfClients="()" and stream="Inr ''{}''" and body="''{}''"
        and lib="exampleLib [JqValue (JOther ''1''), JqValue (JOther ''2'')]"
        and v="JOther ''1''" and x="JqValue (JOther ''2'')" and xs="[]" and out="''1''"
        and objects="[]" and results="[]" and warnings="[]", OF s r n]
    by (simp add: fetch_def exampleLib_def encodeValue_def pathOf_def)
  have b: "fetch (exampleLib [JqError ''cannot iterate over: null'']) ?srv (\<lambda>uri. uri) () [?rp]
     = ([''couldn't filter '' @ [CHR 0x27] @ ''{}'' @ [CHR 0x27]
           @ '': Skipping empty filter result from '' @ [CHR 0x27] @ ''.items[]'' @ [CHR 0x27]
           @ '': no value was returned from the filter''],
        Inr [(''/api/v1/x'', [])])"
    using filter_warnings_amended[where Stream="?srv" and streamDispatcher="\<lambda>uri. uri" and rpath="?rp"
        and rfClients="()" and stream="Inr ''{}''" and body="''{}''"
        and lib="exampleLib [JqError ''cannot iterate over: null'']"
        and msg="''cannot iterate over: null''" and ys="[]"
        and objects="[]" and results="[]" and warnings="[]", OF s r n]
    by (simp add: fetch_def exampleLib_def HasSuffix_def pathOf_def)
  have c: "fetch (exampleLib []) ?srv (\<lambda>uri. uri) () [?rp]
     = ([], Inl (CouldNotFilter ''{}'' CouldNotGetFilteredObject))"
    using filter_warnings_amended[where Stream="?srv" and streamDispatcher="\<lambda>uri. uri" and rpath="?rp"
        and rfClients="()" and stream="Inr ''{}''" and body="''{}''"
        and lib="exampleLib []" and e="CouldNotGetFilteredObject"
        and objects="[]" and results="[]" and warnings="[]", OF s r n]
    by (simp add: fetch_def exampleLib_def filter_jq_def pathOf_def)
  from a b c show ?thesis by simp
qed

subsection \<open>The MachineConfig streamer\<close>

lemma filterItems_Inr:
  "filterItems cl mcs acc = Inr out \<Longrightarrow>
     \<exists>new. out = acc @ new \<and> list_all2 (withoutFiles cl) mcs new"
proof (induction mcs arbitrary: acc)
  case Nil
  then show ?case by simp
next
  case (Cons mc rest)
  show ?case
  proof (cases "Raw mc = []")
    case True
    with Cons.prems have "filterItems cl rest (acc @ [mc]) = Inr out" by simp
    from Cons.IH[OF this] obtain new where n: "out = (acc @ [mc]) @ new" "list_all2 (withoutFiles cl) rest new"
      by blast
    have "withoutFiles cl mc mc" using True by (simp add: withoutFiles_def)
    with n have "out = acc @ (mc # new) \<and> list_all2 (withoutFiles cl) (mc # rest) (mc # new)" by simp
    then show ?thesis by blast
  next
    case False
    with Cons.prems obtain ign raw' where
      p: "ParseAndConvertConfig cl (Raw mc) = Inr ign"
      and m: "MarshalIgn cl (ign\<lparr>StorageFiles := []\<rparr>) = Inr raw'"
      and r: "filterItems cl rest (acc @ [mc\<lparr>Raw := raw'\<rparr>]) = Inr out"
      by (auto split: sum.splits)
    from Cons.IH[OF r] obtain new where n: "out = (acc @ [mc\<lparr>Raw := raw'\<rparr>]) @ new"
      "list_all2 (withoutFiles cl) rest new"
      by blast
    have e: "ign\<lparr>StorageFiles := []\<rparr> = \<lparr> StorageFiles = [], OtherFields = OtherFields ign \<rparr>"
      by simp
    have "withoutFiles cl mc (mc\<lparr>Raw := raw'\<rparr>)"
      using False p m unfolding e by (simp add: withoutFiles_def)
    with n have "out = acc @ (mc\<lparr>Raw := raw'\<rparr> # new)
        \<and> list_all2 (withoutFiles cl) (mc # rest) (mc\<lparr>Raw := raw'\<rparr> # new)" by simp
    then show ?thesis by blast
  qed
qed

lemma filterMcList_Inr:
  "filterMcList cl p = Inr b \<Longrightarrow> list_all2 (withoutFiles cl) (Items p) (Items b)"
  using filterItems_Inr[of cl "Items p" "[]"]
  by (auto simp: filterMcList_def split: sum.splits)

lemma mcStreamLoop_pages:
  "pagesFrom cl tok pages \<Longrightarrow>
     (\<exists>e. mcStreamLoop cl tok acc = Some (Inl e))
     \<or> (\<exists>new. mcStreamLoop cl tok acc = Some (Inr (acc @ new))
            \<and> list_all2 (withoutFiles cl) (concat (map Items pages)) new)"
proof (induction pages arbitrary: tok acc)
  case Nil
  then show ?case by simp
next
  case (Cons p ps)
  from Cons.prems have l: "client_List cl 5 tok = Inr p" by simp
  show ?case
  proof (cases "filterMcList cl p")
    case (Inl e)
    with l have "mcStreamLoop cl tok acc = Some (Inl (OtherError (''failed to filter machine configs: '' @ e)))"
      by (subst mcStreamLoop.simps) simp
    then show ?thesis by blast
  next
    case (Inr b)
    note w = filterMcList_Inr[OF Inr]
    show ?thesis
    proof (cases "ps = []")
      case True
      with Cons.prems have "Continue p = []" by simp
      with l Inr have "mcStreamLoop cl tok acc = Some (Inr (acc @ Items b))"
        by (subst mcStreamLoop.simps) simp
      with w True show ?thesis by simp
    next
      case False
      with Cons.prems have c: "Continue p \<noteq> []" and r: "pagesFrom cl (Continue p) ps" by simp_all
      from l Inr c have s: "mcStreamLoop cl tok acc = mcStreamLoop cl (Continue p) (acc @ Items b)"
        by (subst mcStreamLoop.simps) simp
      from Cons.IH[OF r, of "acc @ Items b"] show ?thesis
      proof
        assume "\<exists>e. mcStreamLoop cl (Continue p) (acc @ Items b) = Some (Inl e)"
        with s show ?thesis by simp
      next
        assume "\<exists>new. mcStreamLoop cl (Continue p) (acc @ Items b) = Some (Inr ((acc @ Items b) @ new))
                  \<and> list_all2 (withoutFiles cl) (concat (map Items ps)) new"
        then obtain new where n: "mcStreamLoop cl (Continue p) (acc @ Items b) = Some (Inr ((acc @ Items b) @ new))"
          "list_all2 (withoutFiles cl) (concat (map Items ps)) new" by blast
        from n(2) w have "list_all2 (withoutFiles cl) (concat (map Items (p # ps))) (Items b @ new)"
          by (simp add: list_all2_appendI)
        with n(1) s have "mcStreamLoop cl tok acc = Some (Inr (acc @ (Items b @ new)))
           \<and> list_all2 (withoutFiles cl) (concat (map Items (p # ps))) (Items b @ new)" by simp
        then show ?thesis by blast
      qed
    qed
  qed
qed

text \<open>
  C7. The MachineConfig streamer is chosen for the URI
  /apis/machineconfiguration.openshift.io/v1/machineconfigs and for no other; every other
  URI is streamed by a GET of that URI. When the server answers the list calls of limit 5
  by a sequence of pages that ends with an empty continue token, the streamer returns:
  either an error, or the serialization of a list whose items are, in order, the
  MachineConfigs of all the pages, each one with a non-empty ignition payload carrying that
  payload with its storage.files array removed.
\<close>

theorem machineconfig_streamer:
  "(getStreamerFn uri = McStreamer \<longleftrightarrow> uri = ''/apis/machineconfiguration.openshift.io/v1/machineconfigs'')
   \<and> (uri \<noteq> ''/apis/machineconfiguration.openshift.io/v1/machineconfigs''
        \<longrightarrow> streamerStream (getStreamerFn uri) rfClients = Some (clientset_Get rfClients uri))
   \<and> (pagesFrom rfClients [] pages \<longrightarrow>
        (\<exists>e. streamerStream McStreamer rfClients = Some (Inl e))
        \<or> (\<exists>items buf.
              list_all2 (withoutFiles rfClients) (concat (map Items pages)) items
              \<and> Encode rfClients \<lparr> TypeMeta = [], Continue = [], Items = items \<rparr> = Inr buf
              \<and> streamerStream McStreamer rfClients = Some (Inr (Inr buf))))"
proof -
  have a: "getStreamerFn uri = McStreamer \<longleftrightarrow> uri = ''/apis/machineconfiguration.openshift.io/v1/machineconfigs''"
    by (simp add: getStreamerFn_def)
  have b: "uri \<noteq> ''/apis/machineconfiguration.openshift.io/v1/machineconfigs''
        \<longrightarrow> streamerStream (getStreamerFn uri) rfClients = Some (clientset_Get rfClients uri)"
    by (simp add: getStreamerFn_def)
  have c: "(\<exists>e. streamerStream McStreamer rfClients = Some (Inl e))
        \<or> (\<exists>items buf.
              list_all2 (withoutFiles rfClients) (concat (map Items pages)) items
              \<and> Encode rfClients \<lparr> TypeMeta = [], Continue = [], Items = items \<rparr> = Inr buf
              \<and> streamerStream McStreamer rfClients = Some (Inr (Inr buf)))"
    if p: "pagesFrom rfClients [] pages"
    using mcStreamLoop_pages[OF p, of "[]"]
  proof
    assume "\<exists>e. mcStreamLoop rfClients [] [] = Some (Inl e)"
    then show ?thesis by (auto simp: mcStreamer_Stream_def)
  next
    assume "\<exists>new. mcStreamLoop rfClients [] [] = Some (Inr ([] @ new))
              \<and> list_all2 (withoutFiles rfClients) (concat (map Items pages)) new"
    then obtain new where n: "mcStreamLoop rfClients [] [] = Some (Inr new)"
      "list_all2 (withoutFiles rfClients) (concat (map Items pages)) new" by auto
    show ?thesis
    proof (cases "Encode rfClients \<lparr> TypeMeta = [], Continue = [], Items = new \<rparr>")
      case (Inl e)
      with n show ?thesis by (simp add: mcStreamer_Stream_def)
    next
      case (Inr buf)
      with n have "streamerStream McStreamer rfClients = Some (Inr (Inr buf))"
        by (simp add: mcStreamer_Stream_def)
      with n Inr show ?thesis by blast
    qed
  qed
  from a b c show ?thesis by blast
qed

theorem machineconfig_streamer_witness:
  "pagesFrom exampleClients [] [page1, page2]
   \<and> streamerStream McStreamer exampleClients = Some (Inr (Inr ''a=ign-a;b=;c=ign-c;''))
   \<and> ''/api/v1/nodes'' \<noteq> ''/apis/machineconfiguration.openshift.io/v1/machineconfigs''
   \<and> streamerStream (getStreamerFn ''/api/v1/nodes'') exampleClients = Some (Inr (Inr ''/api/v1/nodes''))"
proof -
  have p: "pagesFrom exampleClients [] [page1, page2]"
    by (simp add: exampleClients_def page1_def page2_def)
  have l1: "client_List exampleClients 5 [] = Inr page1"
    and l2: "client_List exampleClients 5 ''next'' = Inr page2"
    by (simp_all add: exampleClients_def)
  have f1: "filterMcList exampleClients page1
              = Inr (page1\<lparr>Items := [machineConfig ''a'' ''ign-a'', machineConfig ''b'' []]\<rparr>)"
    by (simp add: filterMcList_def page1_def machineConfig_def exampleClients_def)
  have f2: "filterMcList exampleClients page2
              = Inr (page2\<lparr>Items := [machineConfig ''c'' ''ign-c'']\<rparr>)"
    by (simp add: filterMcList_def page2_def machineConfig_def exampleClients_def)
  have c1: "Continue page1 = ''next''" and c2: "Continue page2 = []"
    by (simp_all add: page1_def page2_def)
  have s2: "mcStreamLoop exampleClients ''next'' items = Some (Inr (items @ [machineConfig ''c'' ''ign-c'']))"
    for items
    by (subst mcStreamLoop.simps) (simp add: l2 f2 c2)
  have s1: "mcStreamLoop exampleClients [] []
              = Some (Inr [machineConfig ''a'' ''ign-a'', machineConfig ''b'' [], machineConfig ''c'' ''ign-c''])"
    by (subst mcStreamLoop.simps) (simp add: l1 f1 c1 s2)
  have s: "streamerStream McStreamer exampleClients = Some (Inr (Inr ''a=ign-a;b=;c=ign-c;''))"
    by (simp add: mcStreamer_Stream_def s1) (simp add: exampleClients_def machineConfig_def)
  have n: "''/api/v1/nodes'' \<noteq> ''/apis/machineconfiguration.openshift.io/v1/machineconfigs''"
    by simp
  have g: "clientset_Get exampleClients ''/api/v1/nodes'' = Inr (Inr ''/api/v1/nodes'')"
    by (simp add: exampleClients_def)
  from machineconfig_streamer[of "''/api/v1/nodes''" exampleClients "[page1, page2]"] p s n g
  show ?thesis by simp
qed

subsection \<open>The tailoring document\<close>

lemma appendSelections_present:
  "list_all (\<lambda>s. rules (ref_Name s) \<noteq> None) sels \<Longrightarrow>
   appendSelections rules enable sels acc
     = Inr (acc @ map (\<lambda>s. \<lparr> sel_IDRef = selectedRuleID rules s, Selected = enable \<rparr>) sels)"
  by (induction sels arbitrary: acc)
     (auto simp: selectedRuleID_def getSelectElementFromCRRule_def)

lemma getValuesFromVariables_map:
  "getValuesFromVariables vars = map (\<lambda>v. \<lparr> sv_IDRef = var_ID v, sv_Value = var_Value v \<rparr>) vars"
proof -
  have "foldl (\<lambda>values varObj. values @ [\<lparr> sv_IDRef = var_ID varObj, sv_Value = var_Value varObj \<rparr>]) acc vars
          = acc @ map (\<lambda>v. \<lparr> sv_IDRef = var_ID v, sv_Value = var_Value v \<rparr>) vars" for acc
    by (induction vars arbitrary: acc) auto
  then show ?thesis by (simp add: getValuesFromVariables_def)
qed

lemma getSelections_present:
  assumes "list_all (\<lambda>s. rules (ref_Name s) \<noteq> None)
             (EnableRules (Spec tp) @ DisableRules (Spec tp) @ ManualRules (Spec tp))"
  shows "getSelections tp rules =
     Inr (map (\<lambda>s. \<lparr> sel_IDRef = selectedRuleID rules s, Selected = True \<rparr>) (EnableRules (Spec tp))
          @ map (\<lambda>s. \<lparr> sel_IDRef = selectedRuleID rules s, Selected = False \<rparr>) (DisableRules (Spec tp))
          @ map (\<lambda>s. \<lparr> sel_IDRef = selectedRuleID rules s, Selected = True \<rparr>) (ManualRules (Spec tp)))"
  using assms by (simp add: getSelections_def appendSelections_present)

lemma marshalProfile_children:
  "children (marshalProfile pe) =
     marshalTitleOrDescription ''xccdf-1.2:title'' (pe_Title pe)
     @ marshalTitleOrDescription ''xccdf-1.2:description'' (pe_Description pe)
     @ map marshalSelect (Selections pe) @ map marshalSetValue (Values pe)"
  by (simp add: marshalProfile_def)

lemma tailoringElement_present:
  assumes "list_all (\<lambda>s. rules (ref_Name s) \<noteq> None)
             (EnableRules (Spec tp) @ DisableRules (Spec tp) @ ManualRules (Spec tp))"
  shows "tailoringElement now tp p pb rules vars =
     Inr \<lparr> XMLNamespaceURI = XCCDFURI,
           te_ID = getTailoringID tp,
           Benchmark = \<lparr> Href = Join ''/content'' (ContentFile pb) \<rparr>,
           Version = \<lparr> Time = now, ver_Value = ''1'' \<rparr>,
           te_Profile =
             \<lparr> pe_ID = GetXCCDFProfileID tp,
               pe_Extends = (case p of None \<Rightarrow> [] | Some base \<Rightarrow> profile_ID base),
               pe_Title = (if Title (Spec tp) \<noteq> [] then Some \<lparr> Override = True, td_Value = Title (Spec tp) \<rparr>
                           else None),
               pe_Description = (if tps_Description (Spec tp) \<noteq> []
                           then Some \<lparr> Override = True, td_Value = tps_Description (Spec tp) \<rparr> else None),
               Selections =
                  map (\<lambda>s. \<lparr> sel_IDRef = selectedRuleID rules s, Selected = True \<rparr>) (EnableRules (Spec tp))
                  @ map (\<lambda>s. \<lparr> sel_IDRef = selectedRuleID rules s, Selected = False \<rparr>) (DisableRules (Spec tp))
                  @ map (\<lambda>s. \<lparr> sel_IDRef = selectedRuleID rules s, Selected = True \<rparr>) (ManualRules (Spec tp)),
               Values = map (\<lambda>v. \<lparr> sv_IDRef = var_ID v, sv_Value = var_Value v \<rparr>) vars \<rparr> \<rparr>"
  by (simp add: tailoringElement_def getSelections_present[OF assms] getValuesFromVariables_map Let_def
      split: option.splits)

text \<open>
  C8, amended. For a TailoredProfile whose selected rules are all in the rule map, the text
  that \<open>TailoredProfileToXML\<close> returns is the serialization of a document with these
  properties: the root element is Tailoring with the prefix bound to the XCCDF 1.2 namespace
  and the id xccdf_compliance.openshift.io_tailoring_ followed by the name of the
  TailoredProfile; it has a single Profile child, whose id is
  xccdf_compliance.openshift.io_profile_ followed by that name; the Profile has an extends
  attribute exactly when a base profile with a non-empty id is supplied, and the attribute
  is then that id; the children of the Profile are, in this order, the title and the
  description (each when the TailoredProfile has a non-empty one), a select with
  selected true per enableRules entry, a select with selected false per disableRules entry,
  a select with selected true per manualRules entry, and a set-value per variable.
\<close>

theorem tailoring_document_amended:
  assumes "list_all (\<lambda>s. rules (ref_Name s) \<noteq> None)
             (EnableRules (Spec tp) @ DisableRules (Spec tp) @ ManualRules (Spec tp))"
  shows "\<exists>doc prof titleAndDescription.
      TailoredProfileToXML MarshalIndent now tp p pb rules vars
        = (case MarshalIndent doc of
             Inl err \<Rightarrow> Inl (MarshalError err)
           | Inr output \<Rightarrow> Inr (XMLHeader @ [CHR 0x0A] @ output))
      \<and> nodeName doc = Some ''xccdf-1.2:Tailoring''
      \<and> SelectAttr doc ''xmlns:xccdf-1.2'' = ''http://checklists.nist.gov/xccdf/1.2''
      \<and> SelectAttr doc ''id'' = ''xccdf_compliance.openshift.io_tailoring_'' @ tp_Name tp
      \<and> filter (\<lambda>c. nodeName c = Some ''xccdf-1.2:Profile'') (children doc) = [prof]
      \<and> SelectAttr prof ''id'' = ''xccdf_compliance.openshift.io_profile_'' @ tp_Name tp
      \<and> (hasAttr prof ''extends'' \<longleftrightarrow> (\<exists>base. p = Some base \<and> profile_ID base \<noteq> []))
      \<and> (\<forall>base. p = Some base \<longrightarrow> SelectAttr prof ''extends'' = profile_ID base)
      \<and> children prof =
           titleAndDescription
           @ map (\<lambda>s. Element ''xccdf-1.2:select''
                         [(''idref'', selectedRuleID rules s), (''selected'', ''true'')] [])
               (EnableRules (Spec tp))
           @ map (\<lambda>s. Element ''xccdf-1.2:select''
                         [(''idref'', selectedRuleID rules s), (''selected'', ''false'')] [])
               (DisableRules (Spec tp))
           @ map (\<lambda>s. Element ''xccdf-1.2:select''
                         [(''idref'', selectedRuleID rules s), (''selected'', ''true'')] [])
               (ManualRules (Spec tp))
           @ map (\<lambda>v. Element ''xccdf-1.2:set-value'' [(''idref'', var_ID v)] (chardata (var_Value v))) vars
      \<and> titleAndDescription =
           (if Title (Spec tp) = [] then []
            else [Element ''xccdf-1.2:title'' [(''override'', ''true'')] [TextNode (Title (Spec tp))]])
           @ (if tps_Description (Spec tp) = [] then []
              else [Element ''xccdf-1.2:description'' [(''override'', ''true'')]
                      [TextNode (tps_Description (Spec tp))]])"
proof -
  note te = tailoringElement_present[OF assms, of now p pb vars]
  let ?pe = "\<lparr> pe_ID = GetXCCDFProfileID tp,
               pe_Extends = (case p of None \<Rightarrow> [] | Some base \<Rightarrow> profile_ID base),
               pe_Title = (if Title (Spec tp) \<noteq> [] then Some \<lparr> Override = True, td_Value = Title (Spec tp) \<rparr>
                           else None),
               pe_Description = (if tps_Description (Spec tp) \<noteq> []
                           then Some \<lparr> Override = True, td_Value = tps_Description (Spec tp) \<rparr> else None),
               Selections =
                  map (\<lambda>s. \<lparr> sel_IDRef = selectedRuleID rules s, Selected = True \<rparr>) (EnableRules (Spec tp))
                  @ map (\<lambda>s. \<lparr> sel_IDRef = selectedRuleID rules s, Selected = False \<rparr>) (DisableRules (Spec tp))
                  @ map (\<lambda>s. \<lparr> sel_IDRef = selectedRuleID rules s, Selected = True \<rparr>) (ManualRules (Spec tp)),
               Values = map (\<lambda>v. \<lparr> sv_IDRef = var_ID v, sv_Value = var_Value v \<rparr>) vars \<rparr>"
  let ?te = "\<lparr> XMLNamespaceURI = XCCDFURI, te_ID = getTailoringID tp,
           Benchmark = \<lparr> Href = Join ''/content'' (ContentFile pb) \<rparr>,
           Version = \<lparr> Time = now, ver_Value = ''1'' \<rparr>, te_Profile = ?pe \<rparr>"
  let ?td = "(if Title (Spec tp) = [] then []
            else [Element ''xccdf-1.2:title'' [(''override'', ''true'')] [TextNode (Title (Spec tp))]])
           @ (if tps_Description (Spec tp) = [] then []
              else [Element ''xccdf-1.2:description'' [(''override'', ''true'')]
                      [TextNode (tps_Description (Spec tp))]])"
  have x: "TailoredProfileToXML MarshalIndent now tp p pb rules vars
        = (case MarshalIndent (marshalTailoring ?te) of
             Inl err \<Rightarrow> Inl (MarshalError err)
           | Inr output \<Rightarrow> Inr (XMLHeader @ [CHR 0x0A] @ output))"
    by (simp add: TailoredProfileToXML_def te)
  have d1: "nodeName (marshalTailoring ?te) = Some ''xccdf-1.2:Tailoring''"
    and d2: "SelectAttr (marshalTailoring ?te) ''xmlns:xccdf-1.2'' = ''http://checklists.nist.gov/xccdf/1.2''"
    and d3: "SelectAttr (marshalTailoring ?te) ''id'' = ''xccdf_compliance.openshift.io_tailoring_'' @ tp_Name tp"
    and d4: "filter (\<lambda>c. nodeName c = Some ''xccdf-1.2:Profile'') (children (marshalTailoring ?te))
               = [marshalProfile ?pe]"
    by (simp_all add: marshalTailoring_def marshalProfile_def XCCDFURI_def getTailoringID_def
        XCCDFNamespace_def)
  have p1: "SelectAttr (marshalProfile ?pe) ''id'' = ''xccdf_compliance.openshift.io_profile_'' @ tp_Name tp"
    by (simp add: marshalProfile_def GetXCCDFProfileID_def XCCDFNamespace_def)
  have p2: "hasAttr (marshalProfile ?pe) ''extends'' \<longleftrightarrow> (\<exists>base. p = Some base \<and> profile_ID base \<noteq> [])"
    by (cases p) (simp_all add: marshalProfile_def)
  have p3: "\<forall>base. p = Some base \<longrightarrow> SelectAttr (marshalProfile ?pe) ''extends'' = profile_ID base"
    by (simp add: marshalProfile_def)
  have p4: "children (marshalProfile ?pe) =
           ?td
           @ map (\<lambda>s. Element ''xccdf-1.2:select''
                         [(''idref'', selectedRuleID rules s), (''selected'', ''true'')] [])
               (EnableRules (Spec tp))
           @ map (\<lambda>s. Element ''xccdf-1.2:select''
                         [(''idref'', selectedRuleID rules s), (''selected'', ''false'')] [])
               (DisableRules (Spec tp))
           @ map (\<lambda>s. Element ''xccdf-1.2:select''
                         [(''idref'', selectedRuleID rules s), (''selected'', ''true'')] [])
               (ManualRules (Spec tp))
           @ map (\<lambda>v. Element ''xccdf-1.2:set-value'' [(''idref'', var_ID v)] (chardata (var_Value v))) vars"
    by (simp add: marshalProfile_children marshalTitleOrDescription_def marshalSelect_def
        marshalSetValue_def boolText_def chardata_def comp_def)
  from x d1 d2 d3 d4 p1 p2 p3 p4 show ?thesis by blast
qed

text \<open>
  C8, as stated, fails: with a base profile whose id is empty the Profile element has no
  extends attribute although a base profile is supplied, and with a title the first child of
  the Profile element is the title, not a select.
\<close>

theorem tailoring_document_counterexample:
  "map_sum id marshalTailoring
     (tailoringElement ''2024-01-01T00:00:00Z'' exampleTailoredProfile
        (Some \<lparr> profile_Name = ''base'', profile_ID = [] \<rparr>) exampleBundle exampleRules [])
   = Inr (Element ''xccdf-1.2:Tailoring''
            [(''xmlns:xccdf-1.2'', ''http://checklists.nist.gov/xccdf/1.2''),
             (''id'', ''xccdf_compliance.openshift.io_tailoring_my-tp'')]
            [Element ''xccdf-1.2:benchmark'' [(''href'', ''/content/ssg-ocp4-ds.xml'')] [],
             Element ''xccdf-1.2:version'' [(''time'', ''2024-01-01T00:00:00Z'')] [TextNode ''1''],
             Element ''xccdf-1.2:Profile'' [(''id'', ''xccdf_compliance.openshift.io_profile_my-tp'')]
               [Element ''xccdf-1.2:title'' [(''override'', ''true'')] [TextNode ''My profile''],
                Element ''xccdf-1.2:select''
                  [(''idref'', ''xccdf_org.ssgproject.content_rule_a''), (''selected'', ''true'')] [],
                Element ''xccdf-1.2:select''
                  [(''idref'', ''xccdf_org.ssgproject.content_rule_b''), (''selected'', ''false'')] []]])"
proof -
  have j: "Join ''/content'' (ContentFile exampleBundle) = ''/content/ssg-ocp4-ds.xml''"
    by code_simp
  show ?thesis
    by (simp add: tailoringElement_def getSelections_def exampleTailoredProfile_def exampleRules_def
        j ruleRef_def getSelectElementFromCRRule_def getValuesFromVariables_def
        marshalTailoring_def marshalProfile_def marshalTitleOrDescription_def marshalSelect_def
        boolText_def chardata_def XCCDFURI_def getTailoringID_def GetXCCDFProfileID_def XCCDFNamespace_def
        Let_def)
qed

theorem tailoring_document_amended_witness:
  "list_all (\<lambda>s. exampleRules (ref_Name s) \<noteq> None)
     (EnableRules (Spec exampleTailoredProfile) @ DisableRules (Spec exampleTailoredProfile)
        @ ManualRules (Spec exampleTailoredProfile))
   \<and> (\<exists>doc prof.
         TailoredProfileToXML (\<lambda>d. Inr (InnerText d)) ''2024-01-01T00:00:00Z'' exampleTailoredProfile
            (Some \<lparr> profile_Name = ''base'', profile_ID = ''xccdf_org.ssgproject.content_profile_base'' \<rparr>)
            exampleBundle exampleRules []
           = Inr (XMLHeader @ [CHR 0x0A] @ InnerText doc)
         \<and> nodeName doc = Some ''xccdf-1.2:Tailoring''
         \<and> filter (\<lambda>c. nodeName c = Some ''xccdf-1.2:Profile'') (children doc) = [prof]
         \<and> hasAttr prof ''extends''
         \<and> SelectAttr prof ''extends'' = ''xccdf_org.ssgproject.content_profile_base'')"
proof -
  have h: "list_all (\<lambda>s. exampleRules (ref_Name s) \<noteq> None)
     (EnableRules (Spec exampleTailoredProfile) @ DisableRules (Spec exampleTailoredProfile)
        @ ManualRules (Spec exampleTailoredProfile))"
    by (simp add: exampleTailoredProfile_def exampleRules_def ruleRef_def)
  from tailoring_document_amended[OF h, of "\<lambda>d. Inr (InnerText d)" "''2024-01-01T00:00:00Z''"
      "Some \<lparr> profile_Name = ''base'', profile_ID = ''xccdf_org.ssgproject.content_profile_base'' \<rparr>"
      exampleBundle "[]"]
  obtain doc prof where
    "TailoredProfileToXML (\<lambda>d. Inr (InnerText d)) ''2024-01-01T00:00:00Z'' exampleTailoredProfile
            (Some \<lparr> profile_Name = ''base'', profile_ID = ''xccdf_org.ssgproject.content_profile_base'' \<rparr>)
            exampleBundle exampleRules []
           = Inr (XMLHeader @ [CHR 0x0A] @ InnerText doc)"
    "nodeName doc = Some ''xccdf-1.2:Tailoring''"
    "filter (\<lambda>c. nodeName c = Some ''xccdf-1.2:Profile'') (children doc) = [prof]"
    "hasAttr prof ''extends''"
    "SelectAttr prof ''extends'' = ''xccdf_org.ssgproject.content_profile_base''"
    by auto
  with h show ?thesis by blast
qed

end
